theory Spec2Isabelle
  imports Complex_Main "HOL-Library.Multiset" "HOL-Library.Sublist"
begin

section \<open>Strings\<close>

text \<open>
  JavaScript strings are modelled as \<open>string\<close> (lists of 8-bit characters); the
  case mapping and the character classes of the regular expressions are those of ASCII.
  JavaScript numbers are modelled as exact rationals; a division whose result is not a
  finite number (\<open>NaN\<close>, \<open>Infinity\<close>) is the value \<open>None\<close>.
\<close>

definition upperChars :: string where
  "upperChars = ''ABCDEFGHIJKLMNOPQRSTUVWXYZ''"

definition lowerChars :: string where
  "lowerChars = ''abcdefghijklmnopqrstuvwxyz''"

definition digitChars :: string where
  "digitChars = ''0123456789''"

definition toLowerCase_char :: "char \<Rightarrow> char" where
  "toLowerCase_char c =
     (case map_of (zip upperChars lowerChars) c of Some l \<Rightarrow> l | None \<Rightarrow> c)"

definition toLowerCase :: "string \<Rightarrow> string" where
  "toLowerCase s = map toLowerCase_char s"

text \<open>The class \<open>\w\<close> of a regular expression, and the class \<open>\s\<close> on ASCII.\<close>

definition isWordChar :: "char \<Rightarrow> bool" where
  "isWordChar c = (c \<in> set (upperChars @ lowerChars @ digitChars @ ''_''))"

definition isSpaceChar :: "char \<Rightarrow> bool" where
  "isSpaceChar c = (c \<in> set [CHR 0x09, CHR 0x0A, CHR 0x0B, CHR 0x0C, CHR 0x0D, CHR 0x20])"

text \<open>\<open>Array.prototype.join\<close>.\<close>

fun join :: "string \<Rightarrow> string list \<Rightarrow> string" where
  "join sep [] = []"
| "join sep [x] = x"
| "join sep (x # y # xs) = x @ sep @ join sep (y # xs)"

text \<open>A backslash cannot be written inside a string literal; \<open>tex s\<close> is \<open>s\<close> after one.\<close>

abbreviation (input) backslash :: char where
  "backslash \<equiv> CHR 0x5C"

abbreviation (input) tex :: "string \<Rightarrow> string" where
  "tex s \<equiv> backslash # s"

section \<open>KeywordService: relevance scoring\<close>

record user_keyword =
  uk_keyword :: string
  uk_weight :: rat

text \<open>A job keyword is either a bare string or an object \<open>{keyword, weight}\<close>.\<close>

datatype job_keyword = JStr string | JObj string rat

fun jk_keyword :: "job_keyword \<Rightarrow> string" where
  "jk_keyword (JStr s) = s"
| "jk_keyword (JObj k w) = k"

fun jk_weight :: "job_keyword \<Rightarrow> rat" where
  "jk_weight (JStr s) = 1"
| "jk_weight (JObj k w) = w"

record keyword_match =
  m_keyword :: string
  jobWeight :: rat
  userWeight :: rat
  matchStrength :: rat

definition calculateMatchStrength :: "user_keyword \<Rightarrow> job_keyword \<Rightarrow> rat" where
  "calculateMatchStrength userKeyword jobKeyword =
     (if toLowerCase (uk_keyword userKeyword) = toLowerCase (jk_keyword jobKeyword)
      then 1 else 8 / 10)"

definition userKeywordMap :: "user_keyword list \<Rightarrow> (string \<rightharpoonup> user_keyword)" where
  "userKeywordMap userKeywords =
     fold (\<lambda>uk m. m(toLowerCase (uk_keyword uk) \<mapsto> uk)) userKeywords Map.empty"

definition match_of :: "(string \<rightharpoonup> user_keyword) \<Rightarrow> job_keyword \<Rightarrow> keyword_match list" where
  "match_of m jk =
     (case m (toLowerCase (jk_keyword jk)) of
        None \<Rightarrow> []
      | Some userMatch \<Rightarrow>
          [\<lparr>m_keyword = jk_keyword jk, jobWeight = jk_weight jk,
            userWeight = uk_weight userMatch,
            matchStrength = calculateMatchStrength userMatch jk\<rparr>])"

definition findKeywordMatches :: "user_keyword list \<Rightarrow> job_keyword list \<Rightarrow> keyword_match list" where
  "findKeywordMatches userKeywords jobKeywords =
     sort_key (\<lambda>a. - matchStrength a)
       (concat (map (match_of (userKeywordMap userKeywords)) jobKeywords))"

definition js_div :: "rat \<Rightarrow> rat \<Rightarrow> rat option" where
  "js_div a b = (if b = 0 then None else Some (a / b))"

definition Math_round :: "rat \<Rightarrow> int" where
  "Math_round x = \<lfloor>x + 1 / 2\<rfloor>"

definition calculateMatchScore :: "keyword_match list \<Rightarrow> job_keyword list \<Rightarrow> int option" where
  "calculateMatchScore matches jobKeywords =
     (if length jobKeywords = 0 then Some 0
      else
        let totalJobWeight = fold (\<lambda>jk sum. sum + jk_weight jk) jobKeywords 0;
            matchedWeight = fold (\<lambda>m sum. sum + jobWeight m * matchStrength m) matches 0
        in map_option (\<lambda>q. Math_round (q * 100)) (js_div matchedWeight totalJobWeight))"

definition matchScore :: "user_keyword list \<Rightarrow> job_keyword list \<Rightarrow> int option" where
  "matchScore userKeywords jobKeywords =
     calculateMatchScore (findKeywordMatches userKeywords jobKeywords) jobKeywords"

section \<open>KeywordService: keyword extraction\<close>

subsection \<open>Keywords\<close>

text \<open>
  A keyword object. The properties \<open>subcategory\<close>, \<open>sources\<close>, \<open>frequency\<close> and
  \<open>finalScore\<close> are absent until the step that adds them.
\<close>

record keyword =
  kw_keyword :: string
  kw_weight :: rat
  kw_category :: string
  kw_subcategory :: "string option"
  kw_sources :: "string list option"
  kw_frequency :: "nat option"
  kw_finalScore :: "rat option"

definition new_keyword :: "string \<Rightarrow> rat \<Rightarrow> string \<Rightarrow> string option \<Rightarrow> keyword" where
  "new_keyword k w c sub =
     \<lparr>kw_keyword = k, kw_weight = w, kw_category = c, kw_subcategory = sub,
      kw_sources = None, kw_frequency = None, kw_finalScore = None\<rparr>"

subsection \<open>Regular expressions with word boundaries\<close>

text \<open>
  The assertion \<open>\b\<close> holds between two neighbouring positions of which exactly one
  holds a word character; outside the text there is no word character.
\<close>

definition wordBoundary :: "char option \<Rightarrow> char option \<Rightarrow> bool" where
  "wordBoundary a b =
     ((case a of None \<Rightarrow> False | Some c \<Rightarrow> isWordChar c)
        \<noteq> (case b of None \<Rightarrow> False | Some c \<Rightarrow> isWordChar c))"

definition next_char :: "string \<Rightarrow> char option" where
  "next_char s = (case s of [] \<Rightarrow> None | c # cs \<Rightarrow> Some c)"

text \<open>
  \<open>text.match(/\b(a1|a2|...)\b/g) || []\<close> for non-empty literal alternatives: at every
  position, from left to right, the first alternative that fits between two word
  boundaries is a match, and the search goes on behind it.
\<close>

function match_alternatives :: "string list \<Rightarrow> char option \<Rightarrow> string \<Rightarrow> string list" where
  "match_alternatives alts prev [] = []"
| "match_alternatives alts prev (c # cs) =
     (case (if wordBoundary prev (Some c)
            then find (\<lambda>a. a \<noteq> [] \<and> prefix a (c # cs) \<and>
                            wordBoundary (Some (last a)) (next_char (drop (length a) (c # cs)))) alts
            else None) of
        Some a \<Rightarrow> a # match_alternatives alts (Some (last a)) (drop (length a) (c # cs))
      | None \<Rightarrow> match_alternatives alts (Some c) cs)"
  by pat_completeness auto
termination
  by (relation "measure (\<lambda>(alts, prev, s). length s)")
     (auto simp: find_Some_iff split: if_splits)

text \<open>
  The number of matches of \<open>new RegExp('\\b' + keyword + '\\b', 'gi')\<close> in a text, for
  a keyword that is a non-empty literal pattern: the occurrences of the keyword, ignoring
  case, between two word boundaries, counted from left to right without overlap.
\<close>

function count_whole_word :: "string \<Rightarrow> char option \<Rightarrow> string \<Rightarrow> nat" where
  "count_whole_word k prev [] = 0"
| "count_whole_word k prev (c # cs) =
     (if k \<noteq> [] \<and> wordBoundary prev (Some c) \<and>
         toLowerCase (take (length k) (c # cs)) = toLowerCase k \<and>
         wordBoundary (Some (last (take (length k) (c # cs)))) (next_char (drop (length k) (c # cs)))
      then 1 + count_whole_word k (Some (last (take (length k) (c # cs)))) (drop (length k) (c # cs))
      else count_whole_word k (Some c) cs)"
  by pat_completeness auto
termination
  by (relation "measure (\<lambda>(k, prev, s). length s)") auto

text \<open>
  The keyword is put into the pattern as it is. The characters with a meaning in a
  pattern are the syntax characters; a keyword without any is a literal pattern. A
  keyword that begins with literal characters followed by \<open>++\<close> is not a pattern at
  all: the second \<open>+\<close> has nothing to repeat, and \<open>new RegExp\<close> raises a syntax
  error. For every other keyword the result of the regular expression engine is a
  parameter, \<open>engine keyword text\<close>: a syntax error or a number of matches.
\<close>

datatype js_error = RegExpSyntaxError

definition syntaxChars :: string where
  "syntaxChars = ''^$.*+?()[]{}|'' @ [CHR 0x5C]"

definition literal_pattern :: "string \<Rightarrow> bool" where
  "literal_pattern k = (k \<noteq> [] \<and> list_all (\<lambda>c. c \<notin> set syntaxChars) k)"

definition nothing_to_repeat :: "string \<Rightarrow> bool" where
  "nothing_to_repeat k =
     (let literal = takeWhile (\<lambda>c. c \<notin> set syntaxChars) k
      in literal \<noteq> [] \<and> prefix ''++'' (drop (length literal) k))"

definition calculateFrequency ::
  "(string \<Rightarrow> string \<Rightarrow> js_error + nat) \<Rightarrow> string \<Rightarrow> string \<Rightarrow> js_error + nat" where
  "calculateFrequency engine k text =
     (if literal_pattern k then Inr (count_whole_word k None text)
      else if nothing_to_repeat k then Inl RegExpSyntaxError
      else engine k text)"

subsection \<open>Pattern extraction\<close>

definition techPatterns :: "(string \<times> string list) list" where
  "techPatterns =
     [(''programming'', [''javascript'', ''python'', ''java'', ''c++'', ''c#'', ''php'', ''ruby'', ''go'',
                         ''rust'', ''swift'', ''kotlin'', ''typescript'']),
      (''frameworks'', [''react'', ''angular'', ''vue'', ''express'', ''django'', ''flask'', ''spring'',
                        ''laravel'', ''rails'']),
      (''databases'', [''mysql'', ''postgresql'', ''mongodb'', ''redis'', ''elasticsearch'', ''oracle'',
                       ''sqlite'']),
      (''cloud'', [''aws'', ''azure'', ''gcp'', ''docker'', ''kubernetes'', ''terraform'', ''jenkins'']),
      (''tools'', [''git'', ''jira'', ''confluence'', ''slack'', ''figma'', ''photoshop'', ''excel''])]"

definition softSkills :: "string list" where
  "softSkills =
     [''leadership'', ''communication'', ''teamwork'', ''problem-solving'', ''analytical'', ''creative'',
      ''organized'', ''detail-oriented'', ''collaborative'', ''innovative'', ''strategic'', ''adaptable'']"

definition actionVerbs :: "string list" where
  "actionVerbs =
     [''developed'', ''implemented'', ''designed'', ''managed'', ''led'', ''created'', ''optimized'',
      ''improved'', ''analyzed'', ''coordinated'']"

text \<open>\<open>String.prototype.includes\<close>.\<close>

fun includes_str :: "string \<Rightarrow> string \<Rightarrow> bool" where
  "includes_str [] sub = (sub = [])"
| "includes_str (c # cs) sub = (prefix sub (c # cs) \<or> includes_str cs sub)"

text \<open>\<open>deduplicateKeywords\<close>: the first keyword of every lower-cased text is kept.\<close>

fun dedupe_from :: "string list \<Rightarrow> keyword list \<Rightarrow> keyword list" where
  "dedupe_from seen [] = []"
| "dedupe_from seen (k # ks) =
     (let key = toLowerCase (kw_keyword k)
      in if key \<in> set seen then dedupe_from seen ks else k # dedupe_from (key # seen) ks)"

definition deduplicateKeywords :: "keyword list \<Rightarrow> keyword list" where
  "deduplicateKeywords keywords = dedupe_from [] keywords"

definition basicKeywordExtraction :: "string \<Rightarrow> keyword list" where
  "basicKeywordExtraction text =
     (let cleanText = toLowerCase text;
          technical = concat (map (\<lambda>(category, alts).
                         map (\<lambda>m. new_keyword m (8 / 10) ''technical'' (Some category))
                           (match_alternatives alts None cleanText)) techPatterns);
          soft = map (\<lambda>skill. new_keyword skill (6 / 10) ''soft'' None)
                   (filter (includes_str cleanText) softSkills);
          action = map (\<lambda>verb. new_keyword verb (5 / 10) ''action'' None)
                     (filter (includes_str cleanText) actionVerbs)
      in deduplicateKeywords (technical @ soft @ action))"

subsection \<open>Merging and ranking\<close>

text \<open>
  The \<open>Map\<close> of \<open>mergeKeywords\<close>, its entries in insertion order: setting an
  existing key replaces the value in place.
\<close>

fun map_set :: "string \<Rightarrow> keyword \<Rightarrow> (string \<times> keyword) list \<Rightarrow> (string \<times> keyword) list" where
  "map_set key v [] = [(key, v)]"
| "map_set key v ((k, w) # rest) =
     (if k = key then (k, v) # rest else (k, w) # map_set key v rest)"

fun push_source :: "string \<Rightarrow> string \<Rightarrow> (string \<times> keyword) list \<Rightarrow> (string \<times> keyword) list" where
  "push_source key source [] = []"
| "push_source key source ((k, w) # rest) =
     (if k = key
      then (k, w\<lparr>kw_sources := Some (case kw_sources w of None \<Rightarrow> [source] | Some l \<Rightarrow> l @ [source])\<rparr>) # rest
      else (k, w) # push_source key source rest)"

definition mergeKeywords :: "keyword list \<Rightarrow> keyword list \<Rightarrow> keyword list" where
  "mergeKeywords claudeKeywords basicKeywords =
     (let m1 = fold (\<lambda>ck m. map_set (toLowerCase (kw_keyword ck)) (ck\<lparr>kw_sources := Some [''claude'']\<rparr>) m)
                 claudeKeywords [];
          m2 = fold (\<lambda>bk m.
                  let key = toLowerCase (kw_keyword bk)
                  in if key \<in> set (map fst m) then push_source key ''basic'' m
                     else map_set key (bk\<lparr>kw_sources := Some [''basic'']\<rparr>) m)
                 basicKeywords m1
      in map snd m2)"

text \<open>\<open>keyword.weight || 1.0\<close>: a weight of zero counts as absent.\<close>

definition calculateFinalScore ::
  "(string \<Rightarrow> string \<Rightarrow> js_error + nat) \<Rightarrow> keyword \<Rightarrow> string \<Rightarrow> js_error + rat" where
  "calculateFinalScore engine k text =
     (let baseWeight = (if kw_weight k = 0 then 1 else kw_weight k) in
      case calculateFrequency engine (kw_keyword k) text of
        Inl e \<Rightarrow> Inl e
      | Inr frequency \<Rightarrow>
          let sourceBonus = (case kw_sources k of
                               None \<Rightarrow> 0
                             | Some sources \<Rightarrow> if ''claude'' \<in> set sources then 2 / 10 else 0)
          in Inr (baseWeight + of_nat frequency * (1 / 10) + sourceBonus))"

text \<open>A keyword is AI-sourced when \<open>claude\<close> is among its sources.\<close>

definition ai_sourced :: "keyword \<Rightarrow> bool" where
  "ai_sourced k = (case kw_sources k of None \<Rightarrow> False | Some sources \<Rightarrow> ''claude'' \<in> set sources)"

definition score_keyword ::
  "(string \<Rightarrow> string \<Rightarrow> js_error + nat) \<Rightarrow> string \<Rightarrow> keyword \<Rightarrow> js_error + keyword" where
  "score_keyword engine text k =
     (case calculateFrequency engine (kw_keyword k) text of
        Inl e \<Rightarrow> Inl e
      | Inr frequency \<Rightarrow>
          (case calculateFinalScore engine k text of
             Inl e \<Rightarrow> Inl e
           | Inr finalScore \<Rightarrow>
               Inr (k\<lparr>kw_frequency := Some frequency, kw_finalScore := Some finalScore\<rparr>)))"

text \<open>The callback of \<open>map\<close> raises at the first keyword whose pattern is not one.\<close>

fun map_scores ::
  "(string \<Rightarrow> string \<Rightarrow> js_error + nat) \<Rightarrow> string \<Rightarrow> keyword list \<Rightarrow> js_error + keyword list" where
  "map_scores engine text [] = Inr []"
| "map_scores engine text (k # ks) =
     (case score_keyword engine text k of
        Inl e \<Rightarrow> Inl e
      | Inr k' \<Rightarrow> (case map_scores engine text ks of Inl e \<Rightarrow> Inl e | Inr ks' \<Rightarrow> Inr (k' # ks')))"

definition finalScore_of :: "keyword \<Rightarrow> rat" where
  "finalScore_of k = (case kw_finalScore k of Some s \<Rightarrow> s | None \<Rightarrow> 0)"

definition rankKeywords ::
  "(string \<Rightarrow> string \<Rightarrow> js_error + nat) \<Rightarrow> keyword list \<Rightarrow> string \<Rightarrow> js_error + keyword list" where
  "rankKeywords engine keywords originalText =
     (case map_scores engine originalText keywords of
        Inl e \<Rightarrow> Inl e
      | Inr scored \<Rightarrow> Inr (take 20 (sort_key (\<lambda>k. - finalScore_of k) scored)))"

subsection \<open>Extraction\<close>

record extraction_result =
  er_keywords :: "keyword list"
  er_totalCount :: nat
  er_method :: string

text \<open>
  \<open>claudeKeywords\<close> is the list that \<open>claudeService.extractKeywords\<close> resolved with
  (the keywords of the reply, or of the fallback of that service).
\<close>

definition extractJobKeywords ::
  "(string \<Rightarrow> string \<Rightarrow> js_error + nat) \<Rightarrow> keyword list \<Rightarrow> string \<Rightarrow> extraction_result" where
  "extractJobKeywords engine claudeKeywords jobDescriptionText =
     (let basicKeywords = basicKeywordExtraction jobDescriptionText;
          mergedKeywords = mergeKeywords claudeKeywords basicKeywords
      in case rankKeywords engine mergedKeywords jobDescriptionText of
           Inr rankedKeywords \<Rightarrow>
             \<lparr>er_keywords = rankedKeywords, er_totalCount = length rankedKeywords,
              er_method = ''claude_enhanced''\<rparr>
         | Inl error \<Rightarrow>
             let basicKeywords = basicKeywordExtraction jobDescriptionText
             in \<lparr>er_keywords = basicKeywords, er_totalCount = length basicKeywords,
                 er_method = ''basic_fallback''\<rparr>)"

subsection \<open>Example data\<close>

definition example_job_text :: string where
  "example_job_text = ''Senior C++ engineer wanted: Python, leadership, AWS.''"

section \<open>LatexService\<close>

subsection \<open>Escaping and substitution\<close>

text \<open>
  \<open>text.replace(/c/g, r)\<close> for a single character \<open>c\<close> and a replacement \<open>r\<close>
  without replacement patterns: every occurrence of \<open>c\<close> becomes \<open>r\<close>.
\<close>

definition replace_char :: "char \<Rightarrow> string \<Rightarrow> string \<Rightarrow> string" where
  "replace_char c r s = concat (map (\<lambda>x. if x = c then r else [x]) s)"

text \<open>The ten replacements of \<open>escapeLatex\<close>, applied one after the other in the source's order.\<close>

definition escapeLatex :: "string \<Rightarrow> string" where
  "escapeLatex text =
     replace_char CHR ''~'' (tex ''textasciitilde{}'')
      (replace_char CHR ''_'' (tex ''_'')
       (replace_char CHR ''^'' (tex ''textasciicircum{}'')
        (replace_char CHR ''#'' (tex ''#'')
         (replace_char CHR ''%'' (tex ''%'')
          (replace_char CHR ''&'' (tex ''&'')
           (replace_char CHR ''$'' (tex ''$'')
            (replace_char CHR ''}'' (tex ''}'')
             (replace_char CHR ''{'' (tex ''{'')
              (replace_char backslash (tex ''textbackslash{}'') text)))))))))"

text \<open>
  \<open>String.prototype.replace\<close> with a string as replacement expands the patterns
  \<open>$$\<close>, \<open>$&\<close>, \<open>$`\<close> and \<open>$'\<close> of the replacement (ECMAScript
  GetSubstitution): the matched text, the text before the match and the text after it.
  The placeholder expressions have no capture groups, so \<open>$1\<close> ... \<open>$99\<close> and
  \<open>$<\<close> stay as they are.
\<close>

fun getSubstitution :: "string \<Rightarrow> string \<Rightarrow> string \<Rightarrow> string \<Rightarrow> string" where
  "getSubstitution matched preceding following [] = []"
| "getSubstitution matched preceding following [c] = [c]"
| "getSubstitution matched preceding following (c # d # r) =
     (if c = CHR ''$'' then
        (if d = CHR ''$'' then CHR ''$'' # getSubstitution matched preceding following r
         else if d = CHR ''&'' then matched @ getSubstitution matched preceding following r
         else if d = CHR 0x60 then preceding @ getSubstitution matched preceding following r
         else if d = CHR 0x27 then following @ getSubstitution matched preceding following r
         else c # getSubstitution matched preceding following (d # r))
      else c # getSubstitution matched preceding following (d # r))"

text \<open>
  \<open>template.replace(new RegExp(pat, 'g'), replacement)\<close> for a literal, non-empty
  pattern: the matches are found from left to right without overlap, and the text
  before and after a match is taken from the string being searched. \<open>scanned\<close> is
  the part of that string already passed.
\<close>

function replace_from :: "string \<Rightarrow> string \<Rightarrow> string \<Rightarrow> string \<Rightarrow> string" where
  "replace_from pat replacement scanned [] = []"
| "replace_from pat replacement scanned (c # cs) =
     (if pat \<noteq> [] \<and> prefix pat (c # cs) then
        getSubstitution pat scanned (drop (length pat) (c # cs)) replacement
          @ replace_from pat replacement (scanned @ pat) (drop (length pat) (c # cs))
      else c # replace_from pat replacement (scanned @ [c]) cs)"
  by pat_completeness auto
termination
  by (relation "measure (\<lambda>(pat, replacement, scanned, s). length s)") auto

definition replace_all :: "string \<Rightarrow> string \<Rightarrow> string \<Rightarrow> string" where
  "replace_all pat replacement s = replace_from pat replacement [] s"

subsection \<open>The CV data of a render request\<close>

text \<open>
  A field read as \<open>x || ''\<close> is a string, empty when the field is absent. The fields
  of \<open>personal\<close> are read by \<open>getNestedValue\<close>, which tells an absent field from
  an empty one, so they are optional.
\<close>

record personal_info =
  p_name :: "string option"
  p_email :: "string option"
  p_phone :: "string option"
  p_linkedIn :: "string option"
  p_location :: "string option"
  p_website :: "string option"

datatype skill = SkillNull | SkillStr string | SkillObj string string

record experience_entry =
  exp_dates :: string
  exp_role :: string
  exp_company :: string
  exp_bullets :: "string list"

record project_entry =
  proj_start_date :: string
  proj_end_date :: string
  proj_name :: string
  proj_description :: string
  proj_technologies :: "string list"
  proj_url :: string

record education_entry =
  edu_dates :: string
  edu_degree :: string
  edu_institution :: string
  edu_gpa :: string
  edu_relevant_courses :: "string list"

record cv_data =
  cv_personal :: "personal_info option"
  cv_summary :: string
  cv_skills :: "skill list"
  cv_experience :: "experience_entry list"
  cv_projects :: "project_entry list"
  cv_education :: "education_entry list"

record render_options =
  opt_fontSize :: "string option"
  opt_colorScheme :: "string option"
  opt_margins :: "string option"

subsection \<open>Formatters\<close>

definition getNestedValue :: "cv_data \<Rightarrow> (personal_info \<Rightarrow> string option) \<Rightarrow> string \<Rightarrow> string" where
  "getNestedValue obj field defaultValue =
     (case cv_personal obj of
        None \<Rightarrow> defaultValue
      | Some p \<Rightarrow> (case field p of None \<Rightarrow> defaultValue | Some current \<Rightarrow> current))"

definition validateFontSize :: "string option \<Rightarrow> string option" where
  "validateFontSize fontSize =
     (case fontSize of
        None \<Rightarrow> None
      | Some f \<Rightarrow> if f \<in> set [''10pt'', ''11pt'', ''12pt'', ''14pt'', ''16pt'', ''18pt'']
                 then Some f else None)"

definition validateColorScheme :: "string option \<Rightarrow> string option" where
  "validateColorScheme colorScheme =
     (case colorScheme of
        None \<Rightarrow> None
      | Some c \<Rightarrow> if c \<in> set [''blue'', ''red'', ''green'', ''purple'', ''orange'', ''teal'', ''black'']
                 then Some c else None)"

definition getMarginSize :: "string \<Rightarrow> string" where
  "getMarginSize marginType =
     (case map_of [(''narrow'', ''0.5in''), (''normal'', ''0.75in''), (''wide'', ''1in'')] marginType of
        Some m \<Rightarrow> m
      | None \<Rightarrow> ''0.75in'')"

text \<open>\<open>a || b\<close> on strings: the empty string is falsy.\<close>

definition or_else :: "string \<Rightarrow> string \<Rightarrow> string" where
  "or_else a b = (if a = [] then b else a)"

fun skill_truthy :: "skill \<Rightarrow> bool" where
  "skill_truthy SkillNull = False"
| "skill_truthy (SkillStr s) = (s \<noteq> [])"
| "skill_truthy (SkillObj n c) = True"

fun skill_category :: "skill \<Rightarrow> string" where
  "skill_category (SkillObj n c) = c"
| "skill_category s = []"

text \<open>\<open>typeof skill === 'string' ? skill : (skill.name || String(skill))\<close>.\<close>

fun skill_name :: "skill \<Rightarrow> string" where
  "skill_name (SkillStr s) = s"
| "skill_name (SkillObj n c) = or_else n ''[object Object]''"
| "skill_name SkillNull = ''null''"

text \<open>The object \<open>categories\<close>, its keys in insertion order.\<close>

fun push_category :: "string \<Rightarrow> string \<Rightarrow> (string \<times> string list) list \<Rightarrow> (string \<times> string list) list" where
  "push_category category n [] = [(category, [n])]"
| "push_category category n ((c, l) # rest) =
     (if c = category then (c, l @ [n]) # rest else (c, l) # push_category category n rest)"

definition group_skills :: "skill list \<Rightarrow> (string \<times> string list) list" where
  "group_skills skills =
     fold (\<lambda>skill categories.
             if \<not> skill_truthy skill then categories
             else push_category (or_else (skill_category skill) ''Technical'') (skill_name skill) categories)
       skills []"

definition formatSkills :: "skill list \<Rightarrow> string" where
  "formatSkills skills =
     (if skills = [] then []
      else if list_ex (\<lambda>skill. skill_category skill \<noteq> []) skills then
        join ('' '' @ tex (tex '' ''))
          (map (\<lambda>(category, skillList). tex ''textbf{'' @ category @ '':} '' @ join '', '' skillList)
             (filter (\<lambda>(category, skillList). skillList \<noteq> []) (group_skills skills)))
      else
        join '', '' (filter (\<lambda>n. n \<noteq> []) (map skill_name (filter skill_truthy skills))))"

definition format_experience_entry :: "experience_entry \<Rightarrow> string" where
  "format_experience_entry ex =
     (let bullets = join ''\<newline>'' (map (\<lambda>bullet. tex ''item '' @ bullet)
                      (filter (\<lambda>bullet. bullet \<noteq> []) (exp_bullets ex)))
      in ''\<newline>'' @ tex ''cventry{'' @ exp_dates ex @ ''}{'' @ exp_role ex @ ''}{''
           @ exp_company ex @ ''}{}{}{''
           @ (if bullets \<noteq> []
              then ''\<newline>'' @ tex ''begin{itemize}\<newline>'' @ bullets @ ''\<newline>'' @ tex ''end{itemize}''
              else [])
           @ ''}'')"

definition formatExperience :: "experience_entry list \<Rightarrow> string" where
  "formatExperience experiences =
     (if experiences = [] then [] else join ''\<newline>'' (map format_experience_entry experiences))"

definition format_project_entry :: "project_entry \<Rightarrow> string" where
  "format_project_entry project =
     (let technologies =
            (if proj_technologies project \<noteq> []
             then '' '' @ tex ''textit{Technologies: '' @ join '', '' (proj_technologies project) @ ''}''
             else []);
          url = (if proj_url project \<noteq> []
                 then '' '' @ tex ''href{'' @ proj_url project @ ''}{[Link]}'' else [])
      in ''\<newline>'' @ tex ''cventry{'' @ proj_start_date project @ '' - '' @ proj_end_date project
           @ ''}{'' @ proj_name project @ ''}{}{}{}{\<newline>''
           @ proj_description project @ technologies @ url @ ''\<newline>}'')"

definition formatProjects :: "project_entry list \<Rightarrow> string" where
  "formatProjects projects =
     (if projects = [] then [] else join ''\<newline>'' (map format_project_entry projects))"

definition format_education_entry :: "education_entry \<Rightarrow> string" where
  "format_education_entry edu =
     (let gpa = (if edu_gpa edu \<noteq> [] then '' (GPA: '' @ edu_gpa edu @ '')'' else []);
          courses =
            (if edu_relevant_courses edu \<noteq> []
             then '' '' @ tex ''textit{Relevant Courses: '' @ join '', '' (edu_relevant_courses edu) @ ''}''
             else [])
      in ''\<newline>'' @ tex ''cventry{'' @ edu_dates edu @ ''}{'' @ edu_degree edu @ ''}{''
           @ edu_institution edu @ ''}{}{}{'' @ gpa @ courses @ ''}'')"

definition formatEducation :: "education_entry list \<Rightarrow> string" where
  "formatEducation education =
     (if education = [] then [] else join ''\<newline>'' (map format_education_entry education))"

text \<open>The replacements, in the order of the object's keys.\<close>

definition createReplacements :: "cv_data \<Rightarrow> render_options \<Rightarrow> (string \<times> string) list" where
  "createReplacements cvData options =
     [(''NAME'', getNestedValue cvData p_name ''Your Name''),
      (''EMAIL'', getNestedValue cvData p_email ''your.email@example.com''),
      (''PHONE'', getNestedValue cvData p_phone []),
      (''LINKEDIN'', getNestedValue cvData p_linkedIn []),
      (''LOCATION'', getNestedValue cvData p_location []),
      (''WEBSITE'', getNestedValue cvData p_website []),
      (''SUMMARY'', cv_summary cvData),
      (''SKILLS'', formatSkills (cv_skills cvData)),
      (''EXPERIENCE'', formatExperience (cv_experience cvData)),
      (''PROJECTS'', formatProjects (cv_projects cvData)),
      (''EDUCATION'', formatEducation (cv_education cvData)),
      (''FONT_SIZE'', case validateFontSize (opt_fontSize options) of Some f \<Rightarrow> f | None \<Rightarrow> ''11pt''),
      (''COLOR_SCHEME'', case validateColorScheme (opt_colorScheme options) of Some c \<Rightarrow> c | None \<Rightarrow> ''blue''),
      (''MARGIN_SIZE'', getMarginSize (case opt_margins options of Some m \<Rightarrow> or_else m ''normal'' | None \<Rightarrow> ''normal''))]"

subsection \<open>Files, template population and the render job\<close>

datatype dir = TemplatesDir | OutputDir | TempDir

type_synonym path = "dir \<times> string"

type_synonym filesystem = "path \<rightharpoonup> string"

datatype render_error =
    InvalidCVData
  | TemplateNotFound string
  | PopulateFailed render_error
  | DirectoryError
  | WriteError
  | CompileTimeout
  | SpawnError
  | MoveFailed
  | CompileFailed int
  | EmptyPDF
  | OversizedPDF

definition sanitize_chars :: string where
  "sanitize_chars = lowerChars @ upperChars @ digitChars @ ''_-''"

text \<open>
  The template name of a request is \<open>None\<close> when it is missing or not a string.
\<close>

definition sanitizeTemplateName :: "string option \<Rightarrow> string" where
  "sanitizeTemplateName templateName =
     (case templateName of
        None \<Rightarrow> ''modern''
      | Some t \<Rightarrow>
          if t = [] then ''modern''
          else let sanitized = toLowerCase (filter (\<lambda>c. c \<in> set sanitize_chars) t)
               in or_else sanitized ''modern'')"

definition populateTemplate :: "filesystem \<Rightarrow> cv_data \<Rightarrow> string \<Rightarrow> render_options \<Rightarrow> render_error + string" where
  "populateTemplate fs cvData templateName options =
     (case fs (TemplatesDir, templateName @ ''-cv.tex'') of
        None \<Rightarrow> Inl (PopulateFailed (TemplateNotFound templateName))
      | Some template \<Rightarrow>
          Inr (fold (\<lambda>(placeholder, v) template.
                       replace_all (''<<'' @ placeholder @ ''>>'') (escapeLatex v) template)
                 (createReplacements cvData options) template))"

text \<open>
  The outside world of a render job: the job id and the timestamp, the input/output errors of the
  file system calls, and the compiler subprocess, which may write any files and ends by
  exiting with a code, by running into the timeout, or by failing to start.

  On the timeout the job does not wait for the subprocess to end: it sends the signal and
  fails at once, so the cleanup runs while the subprocess may still be writing. The
  file system that \<open>env_pdflatex\<close> returns holds what the subprocess wrote before the
  cleanup; \<open>env_late_writes\<close> is what it still writes after the cleanup. An
  \<open>unlink\<close> can fail on a file that exists (a file in use, a missing permission):
  \<open>env_unlink_fails\<close> tells for which paths.
\<close>

datatype compile_outcome = Exited int | TimedOut | SpawnFailed

record environment =
  env_jobId :: string
  env_timestamp :: string
  env_maxFileSize :: nat
  env_mkdir_fails :: bool
  env_writeFile_fails :: bool
  env_copyFile_fails :: bool
  env_unlink_fails :: "path \<Rightarrow> bool"
  env_pdflatex :: "filesystem \<Rightarrow> string \<Rightarrow> compile_outcome \<times> filesystem"
  env_late_writes :: "filesystem \<Rightarrow> filesystem"

text \<open>\<open>fs.unlink\<close>: whether it succeeded, and the file system after it.\<close>

definition unlink :: "environment \<Rightarrow> path \<Rightarrow> filesystem \<Rightarrow> bool \<times> filesystem" where
  "unlink env p fs =
     (if fs p = None \<or> env_unlink_fails env p then (False, fs) else (True, fs(p := None)))"

definition extensions :: "string list" where
  "extensions = [''.tex'', ''.aux'', ''.log'', ''.out'', ''.pdf'']"

text \<open>\<open>cleanupTempFiles\<close> ignores whether an \<open>unlink\<close> succeeds.\<close>

definition cleanupTempFiles :: "environment \<Rightarrow> string \<Rightarrow> filesystem \<Rightarrow> filesystem" where
  "cleanupTempFiles env filename fs =
     fold (\<lambda>ext fs. snd (unlink env (TempDir, filename @ ext) fs)) extensions fs"

definition getFileSize :: "filesystem \<Rightarrow> path \<Rightarrow> nat" where
  "getFileSize fs filePath = (case fs filePath of None \<Rightarrow> 0 | Some content \<Rightarrow> length content)"

text \<open>
  \<open>compileToPDF\<close>. When the timer fires first, the promise is rejected as the signal
  is sent, before the subprocess has closed: the file system of the \<open>TimedOut\<close> case
  is the one at that moment, and what the subprocess writes afterwards is
  \<open>env_late_writes\<close>, applied in \<open>generatePDF\<close> after the cleanup.
\<close>

definition compileToPDF :: "environment \<Rightarrow> filesystem \<Rightarrow> string \<Rightarrow> (render_error + path) \<times> filesystem" where
  "compileToPDF env fs filename =
     (let outputPath = (OutputDir, filename @ ''.pdf'');
          (outcome, fs1) = env_pdflatex env fs filename
      in case outcome of
           TimedOut \<Rightarrow> (Inl CompileTimeout, fs1)
         | SpawnFailed \<Rightarrow> (Inl SpawnError, fs1)
         | Exited code \<Rightarrow>
             if code = 0 then
               (case fs1 (TempDir, filename @ ''.pdf'') of
                  None \<Rightarrow> (Inl MoveFailed, fs1)
                | Some content \<Rightarrow>
                    if env_copyFile_fails env then (Inl MoveFailed, fs1)
                    else (Inr outputPath, fs1(outputPath \<mapsto> content)))
             else (Inl (CompileFailed code), fs1))"

record pdf_result =
  res_jobId :: string
  res_filename :: string
  res_path :: path
  res_size :: nat
  res_template :: string

definition job_filename :: "environment \<Rightarrow> string" where
  "job_filename env = ''cv-'' @ env_jobId env @ ''-'' @ env_timestamp env"

text \<open>The body of the \<open>try\<close> block of \<open>generatePDF\<close>.\<close>

definition render_job ::
  "environment \<Rightarrow> filesystem \<Rightarrow> cv_data \<Rightarrow> string \<Rightarrow> render_options \<Rightarrow> (render_error + pdf_result) \<times> filesystem" where
  "render_job env fs cvData sanitizedTemplateName options =
     (let filename = job_filename env in
      if env_mkdir_fails env then (Inl DirectoryError, fs)
      else case populateTemplate fs cvData sanitizedTemplateName options of
        Inl e \<Rightarrow> (Inl e, fs)
      | Inr latexContent \<Rightarrow>
          if env_writeFile_fails env then (Inl WriteError, fs)
          else
            let fs1 = fs((TempDir, filename @ ''.tex'') \<mapsto> latexContent) in
            case compileToPDF env fs1 filename of
              (Inl e, fs2) \<Rightarrow> (Inl e, fs2)
            | (Inr pdfPath, fs2) \<Rightarrow>
                let fileSize = getFileSize fs2 pdfPath in
                if fileSize = 0 then (Inl EmptyPDF, fs2)
                else if fileSize > env_maxFileSize env then (Inl OversizedPDF, fs2)
                else (Inr \<lparr>res_jobId = env_jobId env, res_filename = filename @ ''.pdf'',
                           res_path = pdfPath, res_size = fileSize,
                           res_template = sanitizedTemplateName\<rparr>,
                      cleanupTempFiles env filename fs2))"

text \<open>
  The CV data is \<open>None\<close> when it is missing or not an object. The file system
  returned is the one left when the job and its subprocess have ended: after a timeout
  the late writes of the subprocess follow the cleanup.
\<close>

definition generatePDF ::
  "environment \<Rightarrow> filesystem \<Rightarrow> cv_data option \<Rightarrow> string option \<Rightarrow> render_options \<Rightarrow> (render_error + pdf_result) \<times> filesystem" where
  "generatePDF env fs cvData templateName options =
     (case cvData of
        None \<Rightarrow> (Inl InvalidCVData, fs)
      | Some cv \<Rightarrow>
          let sanitizedTemplateName = sanitizeTemplateName templateName in
          case render_job env fs cv sanitizedTemplateName options of
            (Inr result, fs') \<Rightarrow> (Inr result, fs')
          | (Inl error, fs') \<Rightarrow>
              let cleaned = cleanupTempFiles env (job_filename env) fs'
              in (Inl error, if error = CompileTimeout then env_late_writes env cleaned else cleaned))"

subsection \<open>Example data\<close>

text \<open>A small render request, used to run the definitions above on concrete inputs.\<close>

definition example_cv :: cv_data where
  "example_cv =
     \<lparr>cv_personal = Some \<lparr>p_name = Some ''John Doe'', p_email = Some ''john.doe@example.com'',
                            p_phone = None, p_linkedIn = None, p_location = None, p_website = None\<rparr>,
      cv_summary = ''Full stack developer'',
      cv_skills = [],
      cv_experience = [],
      cv_projects = [],
      cv_education = []\<rparr>"

definition example_options :: render_options where
  "example_options = \<lparr>opt_fontSize = None, opt_colorScheme = None, opt_margins = None\<rparr>"

definition example_templates :: filesystem where
  "example_templates =
     [(TemplatesDir, ''modern-cv.tex'') \<mapsto> tex ''section{Summary}<<SUMMARY>>'' @ tex ''end{document}'',
      (TemplatesDir, ''classic-cv.tex'') \<mapsto> ''<<NAME>>'' @ tex ''end{document}'']"

text \<open>A compiler run that writes its log and auxiliary file and then fails.\<close>

definition example_env :: environment where
  "example_env =
     \<lparr>env_jobId = ''job1'', env_timestamp = ''2024'', env_maxFileSize = 10485760,
      env_mkdir_fails = False, env_writeFile_fails = False, env_copyFile_fails = False,
      env_unlink_fails = (\<lambda>p. False),
      env_pdflatex = (\<lambda>fs filename.
         (Exited 1, fs((TempDir, filename @ ''.log'') \<mapsto> ''! Undefined control sequence.'',
                       (TempDir, filename @ ''.aux'') \<mapsto> []))),
      env_late_writes = (\<lambda>fs. fs)\<rparr>"

text \<open>
  A compiler run that succeeds: it writes the auxiliary files, a table of contents and the
  document.
\<close>

definition example_env_success :: environment where
  "example_env_success =
     example_env\<lparr>env_pdflatex := (\<lambda>fs filename.
         (Exited 0, fs((TempDir, filename @ ''.aux'') \<mapsto> ''aux'',
                       (TempDir, filename @ ''.log'') \<mapsto> ''log'',
                       (TempDir, filename @ ''.out'') \<mapsto> ''out'',
                       (TempDir, filename @ ''.toc'') \<mapsto> ''toc'',
                       (TempDir, filename @ ''.pdf'') \<mapsto> ''%PDF'')))\<rparr>"

text \<open>The same run, when the log file cannot be unlinked.\<close>

definition example_env_busy :: environment where
  "example_env_busy =
     example_env_success\<lparr>env_unlink_fails := (\<lambda>p. p = (TempDir, ''cv-job1-2024.log''))\<rparr>"

text \<open>A compiler run that is killed at the timeout and writes its log while it ends.\<close>

definition example_env_timeout :: environment where
  "example_env_timeout =
     example_env\<lparr>env_pdflatex := (\<lambda>fs filename. (TimedOut, fs)),
                 env_late_writes := (\<lambda>fs. fs((TempDir, ''cv-job1-2024.log'') \<mapsto> ''log''))\<rparr>"


subsection \<open>Template population with the origin of every character\<close>

text \<open>
  To say where a character of the populated source comes from, the escaping and the
  substitution are run a second time on characters that carry their origin: the template,
  a replacement value, or \<open>escapeLatex\<close>, which wrote the character in place of a
  character \<open>c\<close> of the value (\<open>EscapeOf c\<close>). The functions below are those of
  the section above, step by step; forgetting the origins gives their results back.
\<close>

datatype origin = FromTemplate | FromValue | EscapeOf char

type_synonym ochar = "char \<times> origin"

definition from_template :: "string \<Rightarrow> ochar list" where
  "from_template s = map (\<lambda>c. (c, FromTemplate)) s"

definition from_value :: "string \<Rightarrow> ochar list" where
  "from_value s = map (\<lambda>c. (c, FromValue)) s"

text \<open>
  A character written in place of a character of the value is an escape of that character;
  a character written in place of one that an earlier replacement of \<open>escapeLatex\<close>
  wrote still belongs to the escape of the same character of the value.
\<close>

fun written_for :: "char \<Rightarrow> origin \<Rightarrow> origin" where
  "written_for c (EscapeOf c0) = EscapeOf c0"
| "written_for c FromValue = EscapeOf c"
| "written_for c FromTemplate = EscapeOf c"

definition replace_char_origin :: "char \<Rightarrow> string \<Rightarrow> ochar list \<Rightarrow> ochar list" where
  "replace_char_origin c r s =
     concat (map (\<lambda>(x, orig). if x = c then map (\<lambda>y. (y, written_for c orig)) r else [(x, orig)]) s)"

definition escapeLatex_origin :: "ochar list \<Rightarrow> ochar list" where
  "escapeLatex_origin text =
     replace_char_origin CHR ''~'' (tex ''textasciitilde{}'')
      (replace_char_origin CHR ''_'' (tex ''_'')
       (replace_char_origin CHR ''^'' (tex ''textasciicircum{}'')
        (replace_char_origin CHR ''#'' (tex ''#'')
         (replace_char_origin CHR ''%'' (tex ''%'')
          (replace_char_origin CHR ''&'' (tex ''&'')
           (replace_char_origin CHR ''$'' (tex ''$'')
            (replace_char_origin CHR ''}'' (tex ''}'')
             (replace_char_origin CHR ''{'' (tex ''{'')
              (replace_char_origin backslash (tex ''textbackslash{}'') text)))))))))"

fun getSubstitution_origin :: "ochar list \<Rightarrow> ochar list \<Rightarrow> ochar list \<Rightarrow> ochar list \<Rightarrow> ochar list" where
  "getSubstitution_origin matched preceding following [] = []"
| "getSubstitution_origin matched preceding following [c] = [c]"
| "getSubstitution_origin matched preceding following (c # d # r) =
     (if fst c = CHR ''$'' then
        (if fst d = CHR ''$'' then d # getSubstitution_origin matched preceding following r
         else if fst d = CHR ''&'' then matched @ getSubstitution_origin matched preceding following r
         else if fst d = CHR 0x60 then preceding @ getSubstitution_origin matched preceding following r
         else if fst d = CHR 0x27 then following @ getSubstitution_origin matched preceding following r
         else c # getSubstitution_origin matched preceding following (d # r))
      else c # getSubstitution_origin matched preceding following (d # r))"

function replace_from_origin :: "string \<Rightarrow> ochar list \<Rightarrow> ochar list \<Rightarrow> ochar list \<Rightarrow> ochar list" where
  "replace_from_origin pat replacement scanned [] = []"
| "replace_from_origin pat replacement scanned (c # cs) =
     (if pat \<noteq> [] \<and> prefix pat (map fst (c # cs)) then
        getSubstitution_origin (take (length pat) (c # cs)) scanned (drop (length pat) (c # cs)) replacement
          @ replace_from_origin pat replacement (scanned @ take (length pat) (c # cs))
              (drop (length pat) (c # cs))
      else c # replace_from_origin pat replacement (scanned @ [c]) cs)"
  by pat_completeness auto
termination
  by (relation "measure (\<lambda>(pat, replacement, scanned, s). length s)") auto

definition replace_all_origin :: "string \<Rightarrow> ochar list \<Rightarrow> ochar list \<Rightarrow> ochar list" where
  "replace_all_origin pat replacement s = replace_from_origin pat replacement [] s"

text \<open>The loop of \<open>populateTemplate\<close> over the replacements.\<close>

definition populate_origin :: "(string \<times> string) list \<Rightarrow> string \<Rightarrow> ochar list" where
  "populate_origin replacements template =
     fold (\<lambda>(placeholder, v) template.
             replace_all_origin (''<<'' @ placeholder @ ''>>'') (escapeLatex_origin (from_value v)) template)
       replacements (from_template template)"

text \<open>
  The escape of a backslash of a value, as it leaves \<open>escapeLatex\<close>:
  \<^verbatim>\<open>\textbackslash\{\}\<close>, every character written for the backslash.
\<close>

definition backslash_escape :: "ochar list" where
  "backslash_escape =
     map (\<lambda>y. (y, EscapeOf backslash)) (tex ''textbackslash'' @ tex ''{'' @ tex ''}'')"

text \<open>
  \<open>escapes_intact s\<close>: the characters of \<open>s\<close> written for a backslash of a value
  stand in complete, unbroken escapes \<^verbatim>\<open>\textbackslash\{\}\<close> and nowhere else.
\<close>

fun escapes_intact :: "ochar list \<Rightarrow> bool" where
  "escapes_intact [] = True"
| "escapes_intact (x # xs) =
     (if snd x = EscapeOf backslash
      then prefix backslash_escape (x # xs) \<and> escapes_intact (drop (length backslash_escape - 1) xs)
      else escapes_intact xs)"
section \<open>ClaudeService\<close>

subsection \<open>Requests with retries\<close>

text \<open>
  One call of the generative-text service either resolves with a text or is rejected with
  an error, whose HTTP status is absent for a transport error. The replies are arbitrary:
  \<open>api n\<close> is the reply to the \<open>n\<close>-th call made so far, whatever the prompt. The
  state records the number of calls made and, in order, every call and every backoff
  sleep (in milliseconds).
\<close>

datatype api_response = ApiText string | ApiError "nat option"

datatype event = Call | Sleep nat

record claude_state =
  calls :: nat
  log :: "event list"

datatype service_error = ExternalServiceError | NoResponse

definition maxRetries :: nat where
  "maxRetries = 3"

definition retryDelay :: nat where
  "retryDelay = 1000"

text \<open>
  The outcome of one attempt: the text of the reply, or the status of the error caught
  (an empty reply raises an error without status inside the \<open>try\<close> block).
\<close>

definition attempt_outcome :: "api_response \<Rightarrow> nat option + string" where
  "attempt_outcome r =
     (case r of
        ApiText content \<Rightarrow> if content = [] then Inl None else Inr content
      | ApiError status \<Rightarrow> Inl status)"

text \<open>\<open>error.status >= 400 && error.status < 500 && error.status !== 429\<close>.\<close>

definition client_error :: "nat option \<Rightarrow> bool" where
  "client_error status =
     (case status of None \<Rightarrow> False | Some s \<Rightarrow> 400 \<le> s \<and> s < 500 \<and> s \<noteq> 429)"

text \<open>
  The failures after which a request is tried again, as the specification names them: a
  transport error (an error without HTTP status), a server error (5xx) and rate limiting
  (429).
\<close>

definition retryable :: "nat option \<Rightarrow> bool" where
  "retryable status =
     (case status of None \<Rightarrow> True | Some s \<Rightarrow> (500 \<le> s \<and> s < 600) \<or> s = 429)"

text \<open>
  The loop of \<open>makeRequest\<close> from a given attempt on. Leaving the loop without a
  result (which needs \<open>attempt > maxRetries\<close> at the start) returns \<open>undefined\<close>,
  on which every caller raises inside its own \<open>try\<close> block: the value \<open>Inl NoResponse\<close>.
\<close>

function makeRequest_from :: "(nat \<Rightarrow> api_response) \<Rightarrow> nat \<Rightarrow> claude_state \<Rightarrow> (service_error + string) \<times> claude_state" where
  "makeRequest_from api attempt st =
     (if attempt \<le> maxRetries then
        (let st1 = st\<lparr>calls := calls st + 1, log := log st @ [Call]\<rparr> in
         case attempt_outcome (api (calls st)) of
           Inr content \<Rightarrow> (Inr content, st1)
         | Inl status \<Rightarrow>
             if client_error status then (Inl ExternalServiceError, st1)
             else if attempt = maxRetries then (Inl ExternalServiceError, st1)
             else makeRequest_from api (attempt + 1)
                    (st1\<lparr>log := log st1 @ [Sleep (retryDelay * 2 ^ (attempt - 1))]\<rparr>))
      else (Inl NoResponse, st))"
  by pat_completeness auto
termination
  by (relation "measure (\<lambda>(api, attempt, st). Suc maxRetries - attempt)") auto

declare makeRequest_from.simps [simp del]

definition makeRequest :: "(nat \<Rightarrow> api_response) \<Rightarrow> claude_state \<Rightarrow> (service_error + string) \<times> claude_state" where
  "makeRequest api st = makeRequest_from api 1 st"

subsection \<open>String helpers of the service\<close>

text \<open>\<open>String.prototype.trim\<close>.\<close>

definition trim :: "string \<Rightarrow> string" where
  "trim s = rev (dropWhile isSpaceChar (rev (dropWhile isSpaceChar s)))"

text \<open>\<open>s.replace(/^["']|["']$/g, '')\<close>: one quote at the start and one at the end are removed.\<close>

definition isQuote :: "char \<Rightarrow> bool" where
  "isQuote c = (c = CHR 0x22 \<or> c = CHR 0x27)"

definition strip_quotes :: "string \<Rightarrow> string" where
  "strip_quotes s =
     (let s1 = (if s \<noteq> [] \<and> isQuote (hd s) then tl s else s)
      in if s1 \<noteq> [] \<and> isQuote (last s1) then butlast s1 else s1)"

text \<open>\<open>String.prototype.split\<close> with a non-empty string as separator.\<close>

function split_from :: "string \<Rightarrow> string \<Rightarrow> string \<Rightarrow> string list" where
  "split_from sep cur [] = [cur]"
| "split_from sep cur (c # cs) =
     (if sep \<noteq> [] \<and> prefix sep (c # cs)
      then cur # split_from sep [] (drop (length sep) (c # cs))
      else split_from sep (cur @ [c]) cs)"
  by pat_completeness auto
termination
  by (relation "measure (\<lambda>(sep, cur, s). length s)") auto

definition split :: "string \<Rightarrow> string \<Rightarrow> string list" where
  "split sep s = split_from sep [] s"

text \<open>The decimal digits of a number, as a template literal prints it.\<close>

function string_of_nat :: "nat \<Rightarrow> string" where
  "string_of_nat n =
     (if n < 10 then [digitChars ! n] else string_of_nat (n div 10) @ [digitChars ! (n mod 10)])"
  by pat_completeness auto
termination
  by (relation "measure id") auto

declare string_of_nat.simps [simp del]

subsection \<open>Rewriting a bullet, generating a summary and a skills list\<close>

definition keyword_names :: "job_keyword list \<Rightarrow> string list" where
  "keyword_names keywords = map jk_keyword keywords"

definition rewriteBullet :: "(nat \<Rightarrow> api_response) \<Rightarrow> string \<Rightarrow> job_keyword list \<Rightarrow> claude_state \<Rightarrow> string \<times> claude_state" where
  "rewriteBullet api bullet keywords st =
     (case makeRequest api st of
        (Inr response, st1) \<Rightarrow> (strip_quotes (trim response), st1)
      | (Inl error, st1) \<Rightarrow> (bullet, st1))"

text \<open>
  \<open>generateSummary\<close> catches the failure of the request itself and returns its own
  fallback text, built from the first three entries of the keyword list.
\<close>

definition generateSummary :: "(nat \<Rightarrow> api_response) \<Rightarrow> job_keyword list \<Rightarrow> claude_state \<Rightarrow> (service_error + string) \<times> claude_state" where
  "generateSummary api keywords st =
     (let keywordList = join '', '' (keyword_names (take 8 keywords)) in
      case makeRequest api st of
        (Inr response, st1) \<Rightarrow> (Inr (strip_quotes (trim response)), st1)
      | (Inl error, st1) \<Rightarrow>
          (Inr (''Experienced professional with expertise in ''
                 @ join '', '' (take 3 (split '', '' keywordList))
                 @ ''. Proven track record of delivering results in dynamic environments. Seeking to leverage skills and experience in a challenging new role.''),
           st1))"

text \<open>
  \<open>JSON.parse\<close> of a reply that should be an array of skill names: a syntax error, a
  value that is not an array, or an array of strings. The parser is a parameter.
\<close>

datatype skills_json = SyntaxError | NotArray | StringArray "string list"

definition generateSkillsList ::
  "(nat \<Rightarrow> api_response) \<Rightarrow> (string \<Rightarrow> skills_json) \<Rightarrow> job_keyword list \<Rightarrow> claude_state \<Rightarrow> (service_error + string list) \<times> claude_state" where
  "generateSkillsList api JSON_parse keywords st =
     (let fallback = take 12 (keyword_names (filter (\<lambda>k. jk_weight k > 5 / 10) keywords)) in
      case makeRequest api st of
        (Inl error, st1) \<Rightarrow> (Inr fallback, st1)
      | (Inr response, st1) \<Rightarrow>
          (case JSON_parse (trim response) of
             SyntaxError \<Rightarrow> (Inr fallback, st1)
           | NotArray \<Rightarrow> (Inr [], st1)
           | StringArray skills \<Rightarrow> (Inr skills, st1)))"

section \<open>ContentService\<close>

subsection \<open>The user profile\<close>

text \<open>A bullet is a string or an object with a \<open>text\<close>; a skill is a string or an object with a \<open>name\<close>.\<close>

datatype bullet = BulletStr string | BulletObj string

fun bullet_text :: "bullet \<Rightarrow> string" where
  "bullet_text (BulletStr s) = s"
| "bullet_text (BulletObj t) = t"

datatype profile_skill = PSkillStr string | PSkillObj string

fun pskill_name :: "profile_skill \<Rightarrow> string" where
  "pskill_name (PSkillStr s) = s"
| "pskill_name (PSkillObj n) = n"

record work_experience =
  we_company :: string
  we_role :: string
  we_start_date :: string
  we_end_date :: string
  we_bullets :: "bullet list"

record profile_project =
  pp_name :: string
  pp_description :: string
  pp_technologies :: "string list"

record profile_education =
  pe_degree :: string
  pe_institution :: string
  pe_start_date :: string
  pe_end_date :: string
  pe_gpa :: string
  pe_relevant_courses :: "string list"

record user_profile =
  up_name :: string
  up_work_experience :: "work_experience list"
  up_skills :: "profile_skill list"
  up_projects :: "profile_project list"
  up_education :: "profile_education list"

subsection \<open>Words of a text\<close>

text \<open>\<open>s.split(/\s+/)\<close>: the pieces between runs of white space, empty pieces at the ends included.\<close>

function split_ws_from :: "string \<Rightarrow> string \<Rightarrow> string list" where
  "split_ws_from cur [] = [cur]"
| "split_ws_from cur (c # cs) =
     (if isSpaceChar c then cur # split_ws_from [] (dropWhile isSpaceChar cs)
      else split_ws_from (cur @ [c]) cs)"
  by pat_completeness auto
termination
  by (relation "measure (\<lambda>(cur, s). length s)") (auto simp: length_dropWhile_le less_Suc_eq_le)

definition split_ws :: "string \<Rightarrow> string list" where
  "split_ws s = split_ws_from [] s"

text \<open>\<open>s.match(/\b\w+\b/g) || []\<close>: the maximal runs of word characters.\<close>

fun words_from :: "string \<Rightarrow> string \<Rightarrow> string list" where
  "words_from cur [] = (if cur = [] then [] else [cur])"
| "words_from cur (c # cs) =
     (if isWordChar c then words_from (cur @ [c]) cs
      else (if cur = [] then [] else [cur]) @ words_from [] cs)"

definition match_words :: "string \<Rightarrow> string list" where
  "match_words s = words_from [] s"

text \<open>The set of the job keywords in lower case, and \<open>keywordSet.has\<close>.\<close>

definition keywordSet :: "job_keyword list \<Rightarrow> string set" where
  "keywordSet keywords = set (map (\<lambda>k. toLowerCase (jk_keyword k)) keywords)"

subsection \<open>Summary\<close>

definition generateFallbackSummary :: "user_profile \<Rightarrow> job_keyword list \<Rightarrow> string" where
  "generateFallbackSummary userProfile keywords =
     (let name = or_else (up_name userProfile) ''Professional'';
          experienceCount = length (up_work_experience userProfile);
          topSkills = join '', '' (keyword_names (take 3 keywords))
      in ''Experienced '' @ hd (split '' '' name) @ '' with '' @ string_of_nat experienceCount
           @ ''+ years of professional experience. Skilled in '' @ topSkills
           @ '' with a proven track record of delivering results. Seeking to leverage expertise in a challenging new role.'')"

definition generateTailoredSummary ::
  "(nat \<Rightarrow> api_response) \<Rightarrow> user_profile \<Rightarrow> job_keyword list \<Rightarrow> claude_state \<Rightarrow> string \<times> claude_state" where
  "generateTailoredSummary api userProfile keywords st =
     (case generateSummary api keywords st of
        (Inr summary, st1) \<Rightarrow> (summary, st1)
      | (Inl error, st1) \<Rightarrow> (generateFallbackSummary userProfile keywords, st1))"

subsection \<open>Experience\<close>

definition calculateExperienceRelevance :: "work_experience \<Rightarrow> job_keyword list \<Rightarrow> nat" where
  "calculateExperienceRelevance experience keywords =
     (let score0 = 0;
          roleWords = split_ws (toLowerCase (we_role experience));
          score1 = fold (\<lambda>word score. if word \<in> keywordSet keywords then score + 2 else score)
                     roleWords score0
      in fold (\<lambda>bullet score.
                 fold (\<lambda>word score. if word \<in> keywordSet keywords then score + 1 else score)
                   (match_words (toLowerCase (bullet_text bullet))) score)
           (we_bullets experience) score1)"

text \<open>
  The bullets of one experience: at most the first four, each rewritten by the service,
  which keeps the original bullet when its request fails.
\<close>

fun rewrite_bullets :: "(nat \<Rightarrow> api_response) \<Rightarrow> bullet list \<Rightarrow> job_keyword list \<Rightarrow> claude_state \<Rightarrow> string list \<times> claude_state" where
  "rewrite_bullets api [] topKeywords st = ([], st)"
| "rewrite_bullets api (b # bs) topKeywords st =
     (let (enhancedBullet, st1) = rewriteBullet api (bullet_text b) topKeywords st;
          (rest, st2) = rewrite_bullets api bs topKeywords st1
      in (enhancedBullet # rest, st2))"

definition enhanceExperienceBullets ::
  "(nat \<Rightarrow> api_response) \<Rightarrow> work_experience \<Rightarrow> job_keyword list \<Rightarrow> claude_state \<Rightarrow> string list \<times> claude_state" where
  "enhanceExperienceBullets api experience keywords st =
     (if we_bullets experience = [] then ([], st)
      else rewrite_bullets api (take 4 (we_bullets experience)) (take 5 keywords) st)"

record tailored_experience =
  te_company :: string
  te_role :: string
  te_dates :: string
  te_bullets :: "string list"
  te_relevanceScore :: nat

fun enhance_all :: "(nat \<Rightarrow> api_response) \<Rightarrow> (work_experience \<times> nat) list \<Rightarrow> job_keyword list \<Rightarrow> claude_state \<Rightarrow> tailored_experience list \<times> claude_state" where
  "enhance_all api [] keywords st = ([], st)"
| "enhance_all api ((ex, relevanceScore) # rest) keywords st =
     (let (bullets, st1) = enhanceExperienceBullets api ex keywords st;
          (enhanced, st2) = enhance_all api rest keywords st1
      in (\<lparr>te_company = we_company ex, te_role = we_role ex,
           te_dates = we_start_date ex @ '' - '' @ or_else (we_end_date ex) ''Present'',
           te_bullets = bullets, te_relevanceScore = relevanceScore\<rparr> # enhanced, st2))"

text \<open>
  \<open>Array.prototype.sort\<close> is stable; with the comparison \<open>b.relevanceScore - a.relevanceScore\<close>
  it sorts by descending score, modelled by the stable insertion sort \<open>sort_key\<close> on the negated score.
\<close>

definition scoredExperiences :: "work_experience list \<Rightarrow> job_keyword list \<Rightarrow> (work_experience \<times> nat) list" where
  "scoredExperiences experiences keywords =
     map (\<lambda>ex. (ex, calculateExperienceRelevance ex keywords)) experiences"

definition topExperiences :: "work_experience list \<Rightarrow> job_keyword list \<Rightarrow> (work_experience \<times> nat) list" where
  "topExperiences experiences keywords =
     take 4 (sort_key (\<lambda>(ex, relevanceScore). - int relevanceScore) (scoredExperiences experiences keywords))"

definition selectAndEnhanceExperience ::
  "(nat \<Rightarrow> api_response) \<Rightarrow> work_experience list \<Rightarrow> job_keyword list \<Rightarrow> claude_state \<Rightarrow> tailored_experience list \<times> claude_state" where
  "selectAndEnhanceExperience api experiences keywords st =
     (if experiences = [] then ([], st)
      else enhance_all api (topExperiences experiences keywords) keywords st)"

subsection \<open>Skills\<close>

definition add_missing :: "string list \<Rightarrow> string list \<Rightarrow> string list" where
  "add_missing skills prioritizedSkills =
     fold (\<lambda>skill ps. if list_ex (\<lambda>p. toLowerCase p = toLowerCase skill) ps then ps else ps @ [skill])
       skills prioritizedSkills"

definition generateTailoredSkills ::
  "(nat \<Rightarrow> api_response) \<Rightarrow> (string \<Rightarrow> skills_json) \<Rightarrow> profile_skill list \<Rightarrow> job_keyword list \<Rightarrow> claude_state \<Rightarrow> string list \<times> claude_state" where
  "generateTailoredSkills api JSON_parse userSkills jobKeywords st =
     (case generateSkillsList api JSON_parse jobKeywords st of
        (Inl error, st1) \<Rightarrow> (take 12 (map pskill_name userSkills), st1)
      | (Inr claudeSkills, st1) \<Rightarrow>
          let userSkillNames = map pskill_name userSkills;
              matching = filter (\<lambda>skill. toLowerCase skill \<in> keywordSet jobKeywords) userSkillNames;
              prioritizedSkills = add_missing userSkillNames (add_missing claudeSkills matching)
          in (take 15 prioritizedSkills, st1))"

subsection \<open>Projects and education\<close>

definition project_score :: "profile_project \<Rightarrow> job_keyword list \<Rightarrow> nat" where
  "project_score project keywords =
     (let s1 = fold (\<lambda>word score. if word \<in> keywordSet keywords then score + 2 else score)
                 (split_ws (toLowerCase (pp_name project))) 0;
          s2 = (if pp_description project \<noteq> []
                then fold (\<lambda>word score. if word \<in> keywordSet keywords then score + 1 else score)
                       (match_words (toLowerCase (pp_description project))) s1
                else s1)
      in fold (\<lambda>tech score. if toLowerCase tech \<in> keywordSet keywords then score + 3 else score)
           (pp_technologies project) s2)"

definition selectRelevantProjects :: "profile_project list \<Rightarrow> job_keyword list \<Rightarrow> profile_project list" where
  "selectRelevantProjects projects keywords =
     (if projects = [] then []
      else map fst (take 3 (sort_key (\<lambda>(project, relevanceScore). - int relevanceScore)
                              (map (\<lambda>project. (project, project_score project keywords)) projects))))"

record tailored_education =
  ed_degree :: string
  ed_institution :: string
  ed_dates :: string
  ed_gpa :: string
  ed_relevant_courses :: "string list"

definition formatEducation_content :: "profile_education list \<Rightarrow> tailored_education list" where
  "formatEducation_content education =
     map (\<lambda>edu. \<lparr>ed_degree = pe_degree edu, ed_institution = pe_institution edu,
                  ed_dates = (if pe_end_date edu \<noteq> []
                              then pe_start_date edu @ '' - '' @ pe_end_date edu
                              else pe_start_date edu @ '' - Present''),
                  ed_gpa = pe_gpa edu, ed_relevant_courses = pe_relevant_courses edu\<rparr>) education"

subsection \<open>The tailored sections\<close>

record tailored_sections =
  ts_summary :: string
  ts_experience :: "tailored_experience list"
  ts_skills :: "string list"
  ts_projects :: "profile_project list"
  ts_education :: "tailored_education list"

definition createTailoredSections ::
  "(nat \<Rightarrow> api_response) \<Rightarrow> (string \<Rightarrow> skills_json) \<Rightarrow> user_profile \<Rightarrow> job_keyword list \<Rightarrow> claude_state \<Rightarrow> tailored_sections \<times> claude_state" where
  "createTailoredSections api JSON_parse userProfile keywords st =
     (let (summary, st1) = generateTailoredSummary api userProfile keywords st;
          (experience, st2) = selectAndEnhanceExperience api (up_work_experience userProfile) keywords st1;
          (skills, st3) = generateTailoredSkills api JSON_parse (up_skills userProfile) keywords st2
      in (\<lparr>ts_summary = summary, ts_experience = experience, ts_skills = skills,
           ts_projects = selectRelevantProjects (up_projects userProfile) keywords,
           ts_education = formatEducation_content (up_education userProfile)\<rparr>, st3))"

subsection \<open>Example data\<close>

text \<open>The profile of the repository's test script, and keywords of its job description.\<close>

definition example_profile :: user_profile where
  "example_profile =
     \<lparr>up_name = ''John Doe'',
      up_work_experience =
        [\<lparr>we_company = ''Tech Corp'', we_role = ''Senior Developer'', we_start_date = ''2020-01'',
           we_end_date = ''Present'',
           we_bullets = [BulletObj ''Developed React applications serving 10k+ users'',
                         BulletObj ''Led team of 3 developers on major projects'']\<rparr>],
      up_skills = [PSkillObj ''JavaScript'', PSkillObj ''React'', PSkillObj ''Node.js''],
      up_projects = [],
      up_education =
        [\<lparr>pe_degree = ''Bachelor of Computer Science'', pe_institution = ''University of Technology'',
           pe_start_date = ''2015'', pe_end_date = ''2019'', pe_gpa = [], pe_relevant_courses = []\<rparr>]\<rparr>"

definition example_keywords :: "job_keyword list" where
  "example_keywords =
     [JObj ''JavaScript'' (9 / 10), JObj ''React'' (9 / 10), JObj ''Node.js'' (8 / 10),
      JObj ''agile'' (6 / 10)]"

text \<open>A service that cannot be reached: every call is rejected with an error without HTTP status.\<close>

definition unreachable :: "nat \<Rightarrow> api_response" where
  "unreachable n = ApiError None"

definition initial_state :: claude_state where
  "initial_state = \<lparr>calls = 0, log = []\<rparr>"

text \<open>Six work-experience entries, with the relevance scores 2, 0, 1, 2, 0 and 5.\<close>

definition example_experiences :: "work_experience list" where
  "example_experiences =
     [\<lparr>we_company = ''A'', we_role = ''React Developer'', we_start_date = ''2021'', we_end_date = [],
        we_bullets = []\<rparr>,
      \<lparr>we_company = ''B'', we_role = ''Manager'', we_start_date = ''2020'', we_end_date = ''2021'',
        we_bullets = [BulletStr ''Managed a team'']\<rparr>,
      \<lparr>we_company = ''C'', we_role = ''Engineer'', we_start_date = ''2019'', we_end_date = ''2020'',
        we_bullets = [BulletStr ''Built JavaScript tools'']\<rparr>,
      \<lparr>we_company = ''D'', we_role = ''Developer'', we_start_date = ''2018'', we_end_date = ''2019'',
        we_bullets = [BulletObj ''Used React and agile methods'']\<rparr>,
      \<lparr>we_company = ''E'', we_role = ''Intern'', we_start_date = ''2017'', we_end_date = ''2018'',
        we_bullets = []\<rparr>,
      \<lparr>we_company = ''F'', we_role = ''Agile JavaScript Lead'', we_start_date = ''2016'', we_end_date = ''2017'',
        we_bullets = [BulletStr ''Taught react'']\<rparr>]"

section \<open>Evaluation of the string functions\<close>

lemmas string_simps =
  toLowerCase_def toLowerCase_char_def upperChars_def lowerChars_def digitChars_def
  isSpaceChar_def isWordChar_def

section \<open>Relevance scoring: the match score\<close>

lemma fold_add_sum: "fold (\<lambda>x (s::rat). s + f x) xs a = a + sum_list (map f xs)"
  by (induction xs arbitrary: a) (auto simp: algebra_simps)

lemma ukmap_fold_Some:
  "fold (\<lambda>uk m. m(toLowerCase (uk_keyword uk) \<mapsto> uk)) uks m0 k = Some u \<Longrightarrow>
     (u \<in> set uks \<and> toLowerCase (uk_keyword u) = k) \<or> m0 k = Some u"
  by (induction uks arbitrary: m0) (fastforce split: if_splits)+

lemma ukmap_fold_None:
  "fold (\<lambda>uk m. m(toLowerCase (uk_keyword uk) \<mapsto> uk)) uks m0 k = None \<longleftrightarrow>
     m0 k = None \<and> k \<notin> set (map (\<lambda>uk. toLowerCase (uk_keyword uk)) uks)"
  by (induction uks arbitrary: m0) auto

lemma userKeywordMap_Some:
  "userKeywordMap uks k = Some u \<Longrightarrow> toLowerCase (uk_keyword u) = k"
  unfolding userKeywordMap_def by (drule ukmap_fold_Some) simp

lemma userKeywordMap_None:
  "userKeywordMap uks k = None \<longleftrightarrow> k \<notin> set (map (\<lambda>uk. toLowerCase (uk_keyword uk)) uks)"
  unfolding userKeywordMap_def by (simp add: ukmap_fold_None)

lemma match_of_weight:
  "sum_list (map (\<lambda>m. jobWeight m * matchStrength m) (match_of (userKeywordMap uks) jk)) =
     (if toLowerCase (jk_keyword jk) \<in> set (map (\<lambda>uk. toLowerCase (uk_keyword uk)) uks)
      then jk_weight jk else 0)"
proof (cases "userKeywordMap uks (toLowerCase (jk_keyword jk))")
  case None
  then have "toLowerCase (jk_keyword jk) \<notin> set (map (\<lambda>uk. toLowerCase (uk_keyword uk)) uks)"
    using userKeywordMap_None by blast
  with None show ?thesis by (simp add: match_of_def del: set_map)
next
  case (Some u)
  then have "toLowerCase (uk_keyword u) = toLowerCase (jk_keyword jk)"
    by (rule userKeywordMap_Some)
  moreover from Some have "toLowerCase (jk_keyword jk) \<in> set (map (\<lambda>uk. toLowerCase (uk_keyword uk)) uks)"
    using userKeywordMap_None[of uks "toLowerCase (jk_keyword jk)"] by simp
  ultimately show ?thesis using Some
    by (simp add: match_of_def calculateMatchStrength_def)
qed

lemma matches_weight:
  "sum_list (map (\<lambda>m. jobWeight m * matchStrength m) (concat (map (match_of (userKeywordMap uks)) jks))) =
   sum_list (map jk_weight (filter (\<lambda>jk. toLowerCase (jk_keyword jk) \<in> set (map (\<lambda>uk. toLowerCase (uk_keyword uk)) uks)) jks))"
  by (induction jks) (simp_all add: match_of_weight del: set_map)

lemma sum_list_sort_key:
  "sum_list (map f (sort_key k xs)) = sum_list (map (f::'a \<Rightarrow> rat) xs)"
proof -
  have "mset (map f (sort_key k xs)) = mset (map f xs)" by simp
  then show ?thesis by (metis sum_mset_sum_list)
qed

text \<open>
  Claim C1. For every candidate keyword list and every job keyword list, the match score
  is 0 when the job keyword list is empty; otherwise it is the rounding (half up) of
  100 times the sum of the weights of the job keywords whose text equals, ignoring case,
  some candidate keyword, divided by the sum of the weights of all job keywords. When the
  weights of a non-empty job keyword list sum to zero the quotient is not a finite
  number, in the code as in the formula.
\<close>

theorem matchScore_formula:
  "matchScore userKeywords jobKeywords =
     (if jobKeywords = [] then Some 0
      else if sum_list (map jk_weight jobKeywords) = 0 then None
      else Some (round (100 *
             sum_list (map jk_weight
               (filter (\<lambda>jk. toLowerCase (jk_keyword jk) \<in>
                          set (map (\<lambda>uk. toLowerCase (uk_keyword uk)) userKeywords))
                  jobKeywords))
             / sum_list (map jk_weight jobKeywords))))"
  by (simp add: matchScore_def calculateMatchScore_def findKeywordMatches_def Let_def
      fold_add_sum sum_list_sort_key matches_weight js_div_def Math_round_def round_def mult.commute
      del: set_map)

theorem matchScore_formula_witness:
  "matchScore [\<lparr>uk_keyword = ''javascript'', uk_weight = 1\<rparr>, \<lparr>uk_keyword = ''react'', uk_weight = 1\<rparr>]
     [JObj ''React'' (9 / 10), JObj ''Node.js'' (8 / 10), JStr ''AWS''] = Some 33"
  using matchScore_formula [of "[\<lparr>uk_keyword = ''javascript'', uk_weight = 1\<rparr>, \<lparr>uk_keyword = ''react'', uk_weight = 1\<rparr>]"
     "[JObj ''React'' (9 / 10), JObj ''Node.js'' (8 / 10), JStr ''AWS'']"]
  by (simp add: toLowerCase_def toLowerCase_char_def upperChars_def lowerChars_def round_def
      floor_eq_iff)

section \<open>Document rendering: template names\<close>

lemma sanitizeTemplateName_Some:
  "sanitizeTemplateName (Some t) =
     (if filter (\<lambda>c. c \<in> set sanitize_chars) t = [] then ''modern''
      else toLowerCase (filter (\<lambda>c. c \<in> set sanitize_chars) t))"
  by (cases t) (simp_all add: sanitizeTemplateName_def or_else_def Let_def toLowerCase_def)

lemma generatePDF_template_missing:
  assumes "fs (TemplatesDir, sanitizeTemplateName templateName @ ''-cv.tex'') = None"
    and "\<not> env_mkdir_fails env"
  shows "fst (generatePDF env fs (Some cvData) templateName options) =
           Inl (PopulateFailed (TemplateNotFound (sanitizeTemplateName templateName)))"
  using assms by (simp add: generatePDF_def render_job_def populateTemplate_def Let_def)

text \<open>
  Claim C3, as the specification states it, fails: the template id
  \<open>unknown-template\<close> is made of allowed characters only, so it is kept as it is, and
  the render job ends in an error because no template file of that name exists.
\<close>

theorem unknown_template_counterexample:
  "sanitizeTemplateName (Some ''unknown-template'') \<noteq> ''modern'' \<and>
   fst (generatePDF example_env example_templates (Some example_cv) (Some ''unknown-template'')
          example_options) = Inl (PopulateFailed (TemplateNotFound ''unknown-template''))"
  by (simp add: generatePDF_def render_job_def populateTemplate_def Let_def
      sanitizeTemplateName_def sanitize_chars_def or_else_def toLowerCase_def toLowerCase_char_def
      upperChars_def lowerChars_def digitChars_def example_env_def example_templates_def)

text \<open>
  Claim C3, amended. A template id that is missing, not a string, or without any
  character of \<open>[a-zA-Z0-9_-]\<close> is replaced by \<open>modern\<close>. Any other id is reduced to
  its allowed characters and lower-cased, and that name is used: when the templates
  directory holds no file of that name (and the working directories exist), the render
  job fails with the error that the template was not found.
\<close>

theorem template_name_sanitized:
  "sanitizeTemplateName None = ''modern'' \<and>
   sanitizeTemplateName (Some t) =
     (if filter (\<lambda>c. c \<in> set sanitize_chars) t = [] then ''modern''
      else toLowerCase (filter (\<lambda>c. c \<in> set sanitize_chars) t)) \<and>
   (fs (TemplatesDir, sanitizeTemplateName templateName @ ''-cv.tex'') = None \<and>
      \<not> env_mkdir_fails env \<longrightarrow>
    fst (generatePDF env fs (Some cvData) templateName options) =
      Inl (PopulateFailed (TemplateNotFound (sanitizeTemplateName templateName))))"
  using sanitizeTemplateName_Some generatePDF_template_missing
  by (simp add: sanitizeTemplateName_def)

theorem template_name_sanitized_witness:
  "sanitizeTemplateName (Some ''../../etc'') = ''etc'' \<and>
   sanitizeTemplateName (Some ''../'') = ''modern'' \<and>
   example_templates (TemplatesDir, sanitizeTemplateName (Some ''Unknown-Template'') @ ''-cv.tex'') = None \<and>
   \<not> env_mkdir_fails example_env \<and>
   fst (generatePDF example_env example_templates (Some example_cv) (Some ''Unknown-Template'')
          example_options) = Inl (PopulateFailed (TemplateNotFound ''unknown-template''))"
proof -
  have name: "sanitizeTemplateName (Some ''Unknown-Template'') = ''unknown-template''"
    by (simp add: sanitizeTemplateName_def sanitize_chars_def or_else_def toLowerCase_def
        toLowerCase_char_def upperChars_def lowerChars_def digitChars_def)
  have missing: "example_templates (TemplatesDir, sanitizeTemplateName (Some ''Unknown-Template'') @ ''-cv.tex'') = None"
    by (simp add: name example_templates_def)
  have dirs: "\<not> env_mkdir_fails example_env"
    by (simp add: example_env_def)
  have a: "sanitizeTemplateName (Some ''../../etc'') = ''etc''"
    using template_name_sanitized [of "''../../etc''" example_templates None example_env example_cv example_options]
    by (simp add: sanitize_chars_def toLowerCase_def toLowerCase_char_def upperChars_def
        lowerChars_def digitChars_def)
  have b: "sanitizeTemplateName (Some ''../'') = ''modern''"
    by (simp add: sanitizeTemplateName_Some sanitize_chars_def upperChars_def lowerChars_def digitChars_def)
  have c: "fst (generatePDF example_env example_templates (Some example_cv) (Some ''Unknown-Template'')
          example_options) = Inl (PopulateFailed (TemplateNotFound ''unknown-template''))"
    using template_name_sanitized [of "''x''" example_templates "Some ''Unknown-Template''" example_env
        example_cv example_options] missing dirs
    by (simp add: name)
  from a b c missing dirs show ?thesis by simp
qed

section \<open>Document rendering: cleanup of temporary files\<close>

lemma fold_unlink_at:
  "fold (\<lambda>ext fs. snd (unlink env (d, f @ ext) fs)) exts fs q =
     (if q \<in> set (map (\<lambda>ext. (d, f @ ext)) exts) \<and> \<not> env_unlink_fails env q then None else fs q)"
  by (induction exts arbitrary: fs) (auto simp: unlink_def)

lemma cleanupTempFiles_at:
  "cleanupTempFiles env filename fs q =
     (if q \<in> set (map (\<lambda>ext. (TempDir, filename @ ext)) [''.tex'', ''.aux'', ''.log'', ''.out'', ''.pdf''])
         \<and> \<not> env_unlink_fails env q
      then None else fs q)"
  unfolding cleanupTempFiles_def fold_unlink_at by (simp add: extensions_def)

lemma cleanupTempFiles_removes:
  assumes "ext \<in> set [''.tex'', ''.aux'', ''.log'', ''.out'', ''.pdf'']"
    and "\<not> env_unlink_fails env (TempDir, filename @ ext)"
  shows "cleanupTempFiles env filename fs (TempDir, filename @ ext) = None"
  using assms unfolding cleanupTempFiles_at by auto

lemma render_job_success_clean:
  assumes "render_job env fs cv t opts = (Inr res, fs')"
  shows "\<exists>fs2. fs' = cleanupTempFiles env (job_filename env) fs2"
  using assms
  by (auto simp: render_job_def Let_def split: if_splits sum.splits prod.splits)

text \<open>
  After a timeout the file system is the one the late writes of the subprocess make of
  the cleaned one: what the subprocess writes while it ends stays.
\<close>

lemma generatePDF_timeout_late_writes:
  assumes "render_job env fs cvData (sanitizeTemplateName templateName) options = (Inl CompileTimeout, fs')"
  shows "snd (generatePDF env fs (Some cvData) templateName options) =
           env_late_writes env (cleanupTempFiles env (job_filename env) fs')"
  using assms by (simp add: generatePDF_def Let_def)

lemma example_timeout_leaves_log:
  "generatePDF example_env_timeout example_templates (Some example_cv) (Some ''modern'') example_options
     = (Inl CompileTimeout,
        example_templates((TempDir, ''cv-job1-2024.log'') \<mapsto> ''log''))"
proof -
  have "populateTemplate example_templates example_cv ''modern'' example_options \<noteq>
          Inl (PopulateFailed (TemplateNotFound ''modern''))"
    by (simp add: populateTemplate_def example_templates_def)
  then obtain latex where p: "populateTemplate example_templates example_cv ''modern'' example_options = Inr latex"
    by (auto simp: populateTemplate_def example_templates_def split: option.splits)
  have s: "sanitizeTemplateName (Some ''modern'') = ''modern''"
    by (simp add: sanitizeTemplateName_def sanitize_chars_def or_else_def string_simps)
  have c: "cleanupTempFiles example_env_timeout ''cv-job1-2024''
             (example_templates((TempDir, ''cv-job1-2024.tex'') \<mapsto> latex)) = example_templates"
    by (rule ext) (auto simp: cleanupTempFiles_at example_env_timeout_def example_env_def
        example_templates_def)
  show ?thesis
    using p c
    by (simp add: generatePDF_def render_job_def compileToPDF_def Let_def s job_filename_def
        example_env_timeout_def example_env_def)
qed

text \<open>
  Claim C9, as the specification states it, fails. A compiler run that succeeds writes
  the files \<open>.aux\<close>, \<open>.log\<close>, \<open>.out\<close>, \<open>.toc\<close> and \<open>.pdf\<close> of the job into
  the temporary directory, and the log file cannot be unlinked. The cleanup ignores the
  error of \<open>unlink\<close> and removes only the five extensions of its list: after the
  job the log and the table of contents of the job are still there.
\<close>

theorem cleanup_counterexample:
  "snd (generatePDF example_env_busy example_templates (Some example_cv) (Some ''modern'')
          example_options) (TempDir, ''cv-job1-2024.log'') = Some ''log'' \<and>
   snd (generatePDF example_env_busy example_templates (Some example_cv) (Some ''modern'')
          example_options) (TempDir, ''cv-job1-2024.toc'') = Some ''toc''"
proof -
  obtain latex where p: "populateTemplate example_templates example_cv ''modern'' example_options = Inr latex"
    by (auto simp: populateTemplate_def example_templates_def split: option.splits)
  have s: "sanitizeTemplateName (Some ''modern'') = ''modern''"
    by (simp add: sanitizeTemplateName_def sanitize_chars_def or_else_def string_simps)
  show ?thesis
    using p
    by (simp add: generatePDF_def render_job_def compileToPDF_def Let_def s job_filename_def
        getFileSize_def cleanupTempFiles_at
        example_env_busy_def example_env_success_def example_env_def)
qed

text \<open>
  Claim C9, amended. After every render job that was given CV data and did not end in
  the timeout error (success, input/output error, compiler error, failure to start, empty
  or oversized output), each of the job's files \<open>.tex\<close>, \<open>.aux\<close>, \<open>.log\<close>,
  \<open>.out\<close> and \<open>.pdf\<close> in the temporary directory whose \<open>unlink\<close> does not fail is
  gone, whatever the compiler subprocess wrote. The cleanup removes exactly these: a file
  whose \<open>unlink\<close> fails and every other file, a job file with another extension
  included, are left as they were.
\<close>

theorem generatePDF_cleans_up:
  "(fst (generatePDF env fs (Some cvData) templateName options) \<noteq> Inl CompileTimeout \<longrightarrow>
    (\<forall>ext \<in> set [''.tex'', ''.aux'', ''.log'', ''.out'', ''.pdf''].
       \<not> env_unlink_fails env (TempDir, job_filename env @ ext) \<longrightarrow>
       snd (generatePDF env fs (Some cvData) templateName options)
         (TempDir, job_filename env @ ext) = None)) \<and>
   cleanupTempFiles env filename fs' q =
     (if q \<in> set (map (\<lambda>ext. (TempDir, filename @ ext)) [''.tex'', ''.aux'', ''.log'', ''.out'', ''.pdf''])
         \<and> \<not> env_unlink_fails env q
      then None else fs' q)"
proof (intro conjI impI ballI)
  show "cleanupTempFiles env filename fs' q =
     (if q \<in> set (map (\<lambda>ext. (TempDir, filename @ ext)) [''.tex'', ''.aux'', ''.log'', ''.out'', ''.pdf''])
         \<and> \<not> env_unlink_fails env q
      then None else fs' q)"
    by (rule cleanupTempFiles_at)
next
  fix ext
  assume nt: "fst (generatePDF env fs (Some cvData) templateName options) \<noteq> Inl CompileTimeout"
    and ext: "ext \<in> set [''.tex'', ''.aux'', ''.log'', ''.out'', ''.pdf'']"
    and ok: "\<not> env_unlink_fails env (TempDir, job_filename env @ ext)"
  obtain r fs1 where rj: "render_job env fs cvData (sanitizeTemplateName templateName) options = (r, fs1)"
    by (cases "render_job env fs cvData (sanitizeTemplateName templateName) options")
  show "snd (generatePDF env fs (Some cvData) templateName options) (TempDir, job_filename env @ ext) = None"
  proof (cases r)
    case (Inl e)
    with rj nt have "e \<noteq> CompileTimeout" by (simp add: generatePDF_def Let_def)
    with rj Inl show ?thesis
      using cleanupTempFiles_removes [OF ext ok] by (simp add: generatePDF_def Let_def)
  next
    case (Inr res)
    with rj obtain fs2 where "fs1 = cleanupTempFiles env (job_filename env) fs2"
      using render_job_success_clean by blast
    with rj Inr show ?thesis
      using cleanupTempFiles_removes [OF ext ok] by (simp add: generatePDF_def)
  qed
qed

theorem generatePDF_cleans_up_witness:
  "list_all (\<lambda>ext.
       snd (generatePDF example_env_success example_templates (Some example_cv) (Some ''modern'')
              example_options) (TempDir, ''cv-job1-2024'' @ ext) = None)
     [''.tex'', ''.aux'', ''.log'', ''.out'', ''.pdf''] \<and>
   snd (generatePDF example_env_success example_templates (Some example_cv) (Some ''modern'')
          example_options) (TempDir, ''cv-job1-2024.toc'') = Some ''toc'' \<and>
   (\<exists>result. fst (generatePDF example_env_success example_templates (Some example_cv) (Some ''modern'')
          example_options) = Inr result)"
proof -
  obtain latex where p: "populateTemplate example_templates example_cv ''modern'' example_options = Inr latex"
    by (auto simp: populateTemplate_def example_templates_def split: option.splits)
  have s: "sanitizeTemplateName (Some ''modern'') = ''modern''"
    by (simp add: sanitizeTemplateName_def sanitize_chars_def or_else_def string_simps)
  have run: "generatePDF example_env_success example_templates (Some example_cv) (Some ''modern'')
          example_options =
      (Inr \<lparr>res_jobId = ''job1'', res_filename = ''cv-job1-2024.pdf'',
             res_path = (OutputDir, ''cv-job1-2024.pdf''), res_size = 4, res_template = ''modern''\<rparr>,
       cleanupTempFiles example_env_success ''cv-job1-2024''
         (example_templates((TempDir, ''cv-job1-2024.tex'') \<mapsto> latex,
            (TempDir, ''cv-job1-2024.aux'') \<mapsto> ''aux'',
            (TempDir, ''cv-job1-2024.log'') \<mapsto> ''log'',
            (TempDir, ''cv-job1-2024.out'') \<mapsto> ''out'',
            (TempDir, ''cv-job1-2024.toc'') \<mapsto> ''toc'',
            (TempDir, ''cv-job1-2024.pdf'') \<mapsto> ''%PDF'',
            (OutputDir, ''cv-job1-2024.pdf'') \<mapsto> ''%PDF'')))"
    using p
    by (simp add: generatePDF_def render_job_def compileToPDF_def Let_def s job_filename_def
        getFileSize_def example_env_success_def example_env_def)
  have nt: "fst (generatePDF example_env_success example_templates (Some example_cv) (Some ''modern'')
          example_options) \<noteq> Inl CompileTimeout"
    by (simp add: run)
  have fn: "job_filename example_env_success = ''cv-job1-2024''"
    by (simp add: job_filename_def example_env_success_def example_env_def)
  have ok: "\<And>p. \<not> env_unlink_fails example_env_success p"
    by (simp add: example_env_success_def example_env_def)
  have five: "list_all (\<lambda>ext.
       snd (generatePDF example_env_success example_templates (Some example_cv) (Some ''modern'')
              example_options) (TempDir, ''cv-job1-2024'' @ ext) = None)
     [''.tex'', ''.aux'', ''.log'', ''.out'', ''.pdf'']"
    using generatePDF_cleans_up [of example_env_success example_templates example_cv
        "Some ''modern''" example_options] nt ok
    unfolding list_all_iff fn by blast
  have toc: "snd (generatePDF example_env_success example_templates (Some example_cv) (Some ''modern'')
          example_options) (TempDir, ''cv-job1-2024.toc'') = Some ''toc''"
    by (simp add: run cleanupTempFiles_at)
  from five toc run show ?thesis by simp
qed

section \<open>Document rendering: escaping and substitution\<close>

lemma replace_char_append:
  "replace_char c r (a @ b) = replace_char c r a @ replace_char c r b"
  by (simp add: replace_char_def)

lemma replace_char_Nil: "replace_char c r [] = []"
  by (simp add: replace_char_def)

lemma replace_char_Cons:
  "replace_char c r (x # xs) = (if x = c then r else [x]) @ replace_char c r xs"
  by (simp add: replace_char_def)

lemma escapeLatex_append: "escapeLatex (a @ b) = escapeLatex a @ escapeLatex b"
  by (simp add: escapeLatex_def replace_char_append)

lemma escapeLatex_backslash:
  "escapeLatex [backslash] = tex ''textbackslash'' @ tex ''{'' @ tex ''}''"
  by (simp add: escapeLatex_def replace_char_Cons replace_char_Nil)

lemma escapeLatex_split:
  "escapeLatex (v1 @ backslash # v2) =
     escapeLatex v1 @ tex ''textbackslash'' @ tex ''{'' @ tex ''}'' @ escapeLatex v2"
proof -
  have "v1 @ backslash # v2 = v1 @ [backslash] @ v2" by simp
  then show ?thesis
    by (simp only: escapeLatex_append escapeLatex_backslash append_assoc)
qed

lemma getSubstitution_plain_Cons:
  "c \<noteq> CHR ''$'' \<Longrightarrow> getSubstitution m p q (c # r) = c # getSubstitution m p q r"
  by (cases r) simp_all

lemma getSubstitution_append_plain:
  "c \<notin> {CHR ''$'', CHR ''&'', CHR 0x60, CHR 0x27} \<Longrightarrow>
     getSubstitution m p q (a @ c # b) = getSubstitution m p q a @ c # getSubstitution m p q b"
proof (induction m p q a rule: getSubstitution.induct)
  case (1 m p q)
  then show ?case by (simp add: getSubstitution_plain_Cons)
next
  case (2 m p q x)
  then show ?case by (cases b) (auto simp: getSubstitution_plain_Cons)
next
  case (3 m p q x d r)
  then show ?case by (auto simp: getSubstitution_plain_Cons)
qed

lemma join_Cons: "join sep (x # xs) = x @ (if xs = [] then [] else sep @ join sep xs)"
  by (cases xs) simp_all

lemma formatExperience_starts:
  "\<exists>r. formatExperience (ex # exs) = ''\<newline>'' @ tex ''cventry{'' @ r"
  by (simp add: formatExperience_def join_Cons format_experience_entry_def Let_def)

lemma escapeLatex_cventry:
  "escapeLatex (''\<newline>'' @ tex ''cventry{'' @ r) =
     ''\<newline>'' @ tex ''textbackslash'' @ tex ''{'' @ tex ''}cventry'' @ tex ''{'' @ escapeLatex r"
  by (simp add: escapeLatex_append [of "''\<newline>'' @ tex ''cventry{''" r, simplified]
      escapeLatex_def replace_char_Cons replace_char_Nil)

subsection \<open>Forgetting the origins gives the functions of the code\<close>

lemma replace_char_origin_fst:
  "map fst (replace_char_origin c r s) = replace_char c r (map fst s)"
  by (induction s) (auto simp: replace_char_origin_def replace_char_def comp_def)

lemma escapeLatex_origin_fst:
  "map fst (escapeLatex_origin s) = escapeLatex (map fst s)"
  by (simp only: escapeLatex_origin_def escapeLatex_def replace_char_origin_fst)

lemma getSubstitution_origin_fst:
  "map fst (getSubstitution_origin m p f r) =
     getSubstitution (map fst m) (map fst p) (map fst f) (map fst r)"
  by (induction m p f r rule: getSubstitution_origin.induct) auto

lemma replace_from_origin_fst:
  "map fst (replace_from_origin pat r scanned s) =
     replace_from pat (map fst r) (map fst scanned) (map fst s)"
proof (induction pat r scanned s rule: replace_from_origin.induct)
  case (1 pat replacement scanned)
  then show ?case by simp
next
  case (2 pat replacement scanned c cs)
  show ?case
  proof (cases "pat \<noteq> [] \<and> prefix pat (map fst (c # cs))")
    case True
    then have tk: "map fst (take (length pat) (c # cs)) = pat"
      by (metis append_eq_conv_conj prefix_def take_map)
    have dr: "drop (length pat) (fst c # map fst cs) = map fst (drop (length pat) (c # cs))"
      by (simp only: drop_map list.map [symmetric])
    have pf: "pat \<noteq> [] \<and> prefix pat (fst c # map fst cs)"
      using True by simp
    have "map fst (replace_from_origin pat replacement scanned (c # cs)) =
        map fst (getSubstitution_origin (take (length pat) (c # cs)) scanned
                   (drop (length pat) (c # cs)) replacement)
        @ map fst (replace_from_origin pat replacement (scanned @ take (length pat) (c # cs))
                     (drop (length pat) (c # cs)))"
      using True by (simp del: take_Suc_Cons drop_Suc_Cons)
    also have "\<dots> = getSubstitution pat (map fst scanned) (map fst (drop (length pat) (c # cs)))
                        (map fst replacement)
        @ replace_from pat (map fst replacement) (map fst scanned @ pat)
            (map fst (drop (length pat) (c # cs)))"
      using 2(1) [OF True] by (simp only: getSubstitution_origin_fst tk map_append)
    also have "\<dots> = replace_from pat (map fst replacement) (map fst scanned) (fst c # map fst cs)"
      using pf by (simp only: replace_from.simps dr if_True simp_thms)
    finally show ?thesis by simp
  next
    case False
    then have nf: "\<not> (pat \<noteq> [] \<and> prefix pat (fst c # map fst cs))" by simp
    have "map fst (replace_from_origin pat replacement scanned (c # cs)) =
        fst c # map fst (replace_from_origin pat replacement (scanned @ [c]) cs)"
      using False by (auto simp del: take_Suc_Cons drop_Suc_Cons)
    also have "\<dots> = fst c # replace_from pat (map fst replacement) (map fst scanned @ [fst c]) (map fst cs)"
      using 2(2) [OF False] by simp
    also have "\<dots> = replace_from pat (map fst replacement) (map fst scanned) (fst c # map fst cs)"
      using nf by (simp only: replace_from.simps if_False)
    finally show ?thesis by simp
  qed
qed

lemma replace_all_origin_fst:
  "map fst (replace_all_origin pat r s) = replace_all pat (map fst r) (map fst s)"
  by (simp add: replace_all_origin_def replace_all_def replace_from_origin_fst)

lemma fold_origin_fst:
  "map fst (fold (\<lambda>(placeholder, v).
             replace_all_origin (''<<'' @ placeholder @ ''>>'') (escapeLatex_origin (from_value v)))
       reps t) =
   fold (\<lambda>(placeholder, v).
           replace_all (''<<'' @ placeholder @ ''>>'') (escapeLatex v)) reps (map fst t)"
proof (induction reps arbitrary: t)
  case Nil
  then show ?case by simp
next
  case (Cons a reps)
  obtain p v where a: "a = (p, v)" by (cases a)
  have v: "map fst (from_value v) = v" by (simp add: from_value_def comp_def)
  have "map fst (replace_all_origin (''<<'' @ p @ ''>>'') (escapeLatex_origin (from_value v)) t) =
        replace_all (''<<'' @ p @ ''>>'') (escapeLatex v) (map fst t)"
    by (simp only: replace_all_origin_fst escapeLatex_origin_fst v)
  then show ?case
    unfolding a fold_Cons comp_def prod.case Cons.IH by (rule arg_cong)
qed

lemma populate_origin_fst:
  "map fst (populate_origin reps template) =
     fold (\<lambda>(placeholder, v) template.
             replace_all (''<<'' @ placeholder @ ''>>'') (escapeLatex v) template) reps template"
  unfolding populate_origin_def fold_origin_fst by (simp add: from_template_def comp_def)

subsection \<open>No backslash of a value is copied\<close>

lemma written_for_not_FromValue [simp]:
  "written_for c orig \<noteq> FromValue" "FromValue \<noteq> written_for c orig"
  by (cases orig; simp)+

lemma replace_char_origin_FromValue:
  "(x, FromValue) \<in> set (replace_char_origin c r s) \<Longrightarrow> (x, FromValue) \<in> set s \<and> x \<noteq> c"
  by (auto simp: replace_char_origin_def split: if_splits)

lemma escapeLatex_origin_no_backslash:
  "(backslash, FromValue) \<notin> set (escapeLatex_origin s)"
proof
  assume "(backslash, FromValue) \<in> set (escapeLatex_origin s)"
  then have "(backslash, FromValue) \<in> set (replace_char_origin backslash (tex ''textbackslash{}'') s)"
    unfolding escapeLatex_origin_def by (blast dest: replace_char_origin_FromValue)
  then show False by (blast dest: replace_char_origin_FromValue)
qed

lemma getSubstitution_origin_set:
  "set (getSubstitution_origin m p f r) \<subseteq> set m \<union> set p \<union> set f \<union> set r"
  by (induction m p f r rule: getSubstitution_origin.induct) auto

lemma replace_from_origin_set:
  "set (replace_from_origin pat r scanned s) \<subseteq> set r \<union> set scanned \<union> set s"
proof (induction pat r scanned s rule: replace_from_origin.induct)
  case (1 pat replacement scanned)
  then show ?case by simp
next
  case (2 pat replacement scanned c cs)
  show ?case
  proof (cases "pat \<noteq> [] \<and> prefix pat (map fst (c # cs))")
    case True
    have eq: "replace_from_origin pat replacement scanned (c # cs) =
        getSubstitution_origin (take (length pat) (c # cs)) scanned (drop (length pat) (c # cs)) replacement
          @ replace_from_origin pat replacement (scanned @ take (length pat) (c # cs))
              (drop (length pat) (c # cs))"
      using True by (simp del: take_Suc_Cons drop_Suc_Cons)
    have t: "set (take (length pat) (c # cs)) \<subseteq> set (c # cs)" by (rule set_take_subset)
    have d: "set (drop (length pat) (c # cs)) \<subseteq> set (c # cs)" by (rule set_drop_subset)
    have g: "set (getSubstitution_origin (take (length pat) (c # cs)) scanned
                   (drop (length pat) (c # cs)) replacement)
              \<subseteq> set replacement \<union> set scanned \<union> set (c # cs)"
      using getSubstitution_origin_set [of "take (length pat) (c # cs)" scanned
          "drop (length pat) (c # cs)" replacement] t d by blast
    have r: "set (replace_from_origin pat replacement (scanned @ take (length pat) (c # cs))
              (drop (length pat) (c # cs))) \<subseteq> set replacement \<union> set scanned \<union> set (c # cs)"
      using 2(1) [OF True] t d by (simp only: set_append) blast
    show ?thesis unfolding eq set_append using g r by blast
  next
    case False
    have eq: "replace_from_origin pat replacement scanned (c # cs) =
        c # replace_from_origin pat replacement (scanned @ [c]) cs"
      using False by (auto simp del: take_Suc_Cons drop_Suc_Cons)
    show ?thesis unfolding eq using 2(2) [OF False] by auto
  qed
qed

lemma fold_origin_no_backslash:
  "(backslash, FromValue) \<notin> set t \<Longrightarrow>
   (backslash, FromValue) \<notin> set (fold (\<lambda>(placeholder, v).
             replace_all_origin (''<<'' @ placeholder @ ''>>'') (escapeLatex_origin (from_value v)))
       reps t)"
proof (induction reps arbitrary: t)
  case Nil
  then show ?case by simp
next
  case (Cons a reps)
  obtain p v where a: "a = (p, v)" by (cases a)
  have "(backslash, FromValue) \<notin>
          set (replace_all_origin (''<<'' @ p @ ''>>'') (escapeLatex_origin (from_value v)) t)"
    using replace_from_origin_set [of "''<<'' @ p @ ''>>''" "escapeLatex_origin (from_value v)" "[]" t]
      escapeLatex_origin_no_backslash [of "from_value v"] Cons.prems
    unfolding replace_all_origin_def by auto
  then show ?case
    unfolding a fold_Cons comp_def prod.case by (rule Cons.IH)
qed

lemma populate_origin_no_backslash:
  "(backslash, FromValue) \<notin> set (populate_origin reps template)"
  unfolding populate_origin_def
  by (rule fold_origin_no_backslash) (auto simp: from_template_def)

subsection \<open>The escapes of backslashes stay intact\<close>

lemma length_backslash_escape: "length backslash_escape = 18"
  by (simp add: backslash_escape_def)

lemma backslash_escape_Cons:
  "\<exists>rest. backslash_escape = (backslash, EscapeOf backslash) # rest \<and> length rest = 17"
  by (simp add: backslash_escape_def)

lemma snd_backslash_escape: "x \<in> set backslash_escape \<Longrightarrow> snd x = EscapeOf backslash"
  by (auto simp: backslash_escape_def)

lemma fst_backslash_escape:
  "x \<in> set backslash_escape \<Longrightarrow> fst x \<in> set (tex ''textbackslash{}'')"
  by (auto simp: backslash_escape_def)

lemma intact_escape [simp]: "escapes_intact (backslash_escape @ s) = escapes_intact s"
proof -
  obtain rest where r: "backslash_escape = (backslash, EscapeOf backslash) # rest" "length rest = 17"
    using backslash_escape_Cons by blast
  have e: "(backslash, EscapeOf backslash) # (rest @ s) = backslash_escape @ s"
    by (simp add: r(1))
  have "escapes_intact ((backslash, EscapeOf backslash) # (rest @ s)) =
      (prefix backslash_escape ((backslash, EscapeOf backslash) # (rest @ s)) \<and>
       escapes_intact (drop (length backslash_escape - 1) (rest @ s)))"
    by simp
  moreover have "prefix backslash_escape ((backslash, EscapeOf backslash) # (rest @ s))"
    unfolding e by simp
  moreover have "drop (length backslash_escape - 1) (rest @ s) = s"
    by (simp add: length_backslash_escape r(2))
  ultimately show ?thesis unfolding e by simp
qed

lemma intact_plain [simp]:
  "snd x \<noteq> EscapeOf backslash \<Longrightarrow> escapes_intact (x # s) = escapes_intact s"
  by simp

lemma intact_cases:
  assumes "escapes_intact s"
  obtains (Nil) "s = []"
  | (Plain) x s' where "s = x # s'" "snd x \<noteq> EscapeOf backslash" "escapes_intact s'"
  | (Escape) s' where "s = backslash_escape @ s'" "escapes_intact s'"
proof (cases s)
  case Nil
  then show ?thesis by (rule that(1))
next
  case (Cons x xs)
  show ?thesis
  proof (cases "snd x = EscapeOf backslash")
    case False
    with assms Cons show ?thesis by (intro that(2) [of x xs]) simp_all
  next
    case True
    with assms Cons have p: "prefix backslash_escape s"
      and i: "escapes_intact (drop (length backslash_escape - 1) xs)" by simp_all
    from p obtain s' where s': "s = backslash_escape @ s'" by (auto simp: prefix_def)
    have "drop (length backslash_escape - 1) xs = drop (length backslash_escape) s"
      using Cons by (simp add: length_backslash_escape)
    also have "\<dots> = s'" by (simp add: s')
    finally show ?thesis using i s' by (intro that(3) [of s']) simp_all
  qed
qed

lemma intact_append:
  "escapes_intact a \<Longrightarrow> escapes_intact b \<Longrightarrow> escapes_intact (a @ b)"
proof (induction a rule: length_induct)
  case (1 a)
  from 1(2) show ?case
  proof (cases rule: intact_cases)
    case Nil
    with 1(3) show ?thesis by simp
  next
    case (Plain x s')
    with 1 show ?thesis by simp
  next
    case (Escape s')
    with 1 show ?thesis by (simp add: length_backslash_escape)
  qed
qed

lemma intact_all_plain:
  "\<forall>x \<in> set s. snd x \<noteq> EscapeOf backslash \<Longrightarrow> escapes_intact s"
  by (induction s) simp_all

lemma intact_concat:
  "\<forall>w \<in> set ws. escapes_intact w \<Longrightarrow> escapes_intact (concat ws)"
  by (induction ws) (simp_all add: intact_append)

lemma intact_not_backslash:
  assumes "escapes_intact (x # s)" "fst x \<noteq> backslash"
  shows "snd x \<noteq> EscapeOf backslash"
proof
  assume "snd x = EscapeOf backslash"
  with assms(1) have p: "prefix backslash_escape (x # s)" by simp
  obtain rest where r: "backslash_escape = (backslash, EscapeOf backslash) # rest"
    using backslash_escape_Cons by blast
  from p have "x = (backslash, EscapeOf backslash)" unfolding r by simp
  with assms(2) show False by simp
qed

text \<open>What \<open>escapeLatex\<close> makes of a value.\<close>

lemma replace_char_origin_append:
  "replace_char_origin c r (a @ b) = replace_char_origin c r a @ replace_char_origin c r b"
  by (simp add: replace_char_origin_def)

lemma replace_char_origin_Nil: "replace_char_origin c r [] = []"
  by (simp add: replace_char_origin_def)

lemma replace_char_origin_Cons:
  "replace_char_origin c r ((x, orig) # xs) =
     (if x = c then map (\<lambda>y. (y, written_for c orig)) r else [(x, orig)]) @ replace_char_origin c r xs"
  by (simp add: replace_char_origin_def)

lemma escapeLatex_origin_append:
  "escapeLatex_origin (a @ b) = escapeLatex_origin a @ escapeLatex_origin b"
  by (simp add: escapeLatex_origin_def replace_char_origin_append)

lemma escapeLatex_origin_backslash:
  "escapeLatex_origin [(backslash, FromValue)] = backslash_escape"
  by (simp add: escapeLatex_origin_def backslash_escape_def replace_char_origin_Cons
      replace_char_origin_Nil)

lemma replace_char_origin_plain:
  "\<forall>x \<in> set s. snd x \<noteq> EscapeOf backslash \<Longrightarrow> c \<noteq> backslash \<Longrightarrow>
   \<forall>x \<in> set (replace_char_origin c r s). snd x \<noteq> EscapeOf backslash"
proof (intro ballI)
  fix x
  assume a: "\<forall>x \<in> set s. snd x \<noteq> EscapeOf backslash" "c \<noteq> backslash"
    and x: "x \<in> set (replace_char_origin c r s)"
  have w: "\<And>orig. orig \<noteq> EscapeOf backslash \<Longrightarrow> written_for c orig \<noteq> EscapeOf backslash"
    using a(2) by (case_tac orig) auto
  from x a(1) show "snd x \<noteq> EscapeOf backslash"
    by (auto simp: replace_char_origin_def w split: if_splits)
qed

lemma escapeLatex_origin_plain:
  assumes "c \<noteq> backslash"
  shows "\<forall>x \<in> set (escapeLatex_origin [(c, FromValue)]). snd x \<noteq> EscapeOf backslash"
proof -
  have eq: "replace_char_origin backslash (tex ''textbackslash{}'') [(c, FromValue)] = [(c, FromValue)]"
    using assms by (simp add: replace_char_origin_Cons replace_char_origin_Nil)
  show ?thesis
    unfolding escapeLatex_origin_def eq
    by (intro replace_char_origin_plain) simp_all
qed

lemma escapeLatex_origin_intact: "escapes_intact (escapeLatex_origin (from_value v))"
proof (induction v)
  case Nil
  then show ?case
    by (simp add: from_value_def escapeLatex_origin_def replace_char_origin_Nil)
next
  case (Cons c v)
  have "escapeLatex_origin (from_value (c # v)) =
      escapeLatex_origin [(c, FromValue)] @ escapeLatex_origin (from_value v)"
    using escapeLatex_origin_append [of "[(c, FromValue)]" "from_value v"]
    by (simp add: from_value_def)
  moreover have "escapes_intact (escapeLatex_origin [(c, FromValue)])"
  proof (cases "c = backslash")
    case True
    then show ?thesis
      using intact_escape [of "[]"] by (simp add: escapeLatex_origin_backslash)
  next
    case False
    then show ?thesis by (intro intact_all_plain escapeLatex_origin_plain)
  qed
  ultimately show ?case using Cons.IH by (simp add: intact_append)
qed

lemma getSubstitution_origin_plain_Cons:
  "fst c \<noteq> CHR ''$'' \<Longrightarrow>
     getSubstitution_origin m p f (c # r) = c # getSubstitution_origin m p f r"
  by (cases r) simp_all

lemma getSubstitution_origin_skip:
  "\<forall>x \<in> set a. fst x \<noteq> CHR ''$'' \<Longrightarrow>
     getSubstitution_origin m p f (a @ r) = a @ getSubstitution_origin m p f r"
  by (induction a) (simp_all add: getSubstitution_origin_plain_Cons)

lemma backslash_escape_no_dollar: "\<forall>x \<in> set backslash_escape. fst x \<noteq> CHR ''$''"
  by (simp add: backslash_escape_def)

lemma getSubstitution_origin_intact:
  assumes "escapes_intact m" "escapes_intact p" "escapes_intact f"
  shows "escapes_intact r \<Longrightarrow> escapes_intact (getSubstitution_origin m p f r)"
proof (induction r rule: length_induct)
  case (1 r)
  from 1(2) show ?case
  proof (cases rule: intact_cases)
    case Nil
    then show ?thesis by simp
  next
    case (Escape s')
    then show ?thesis
      using 1(1) by (simp add: getSubstitution_origin_skip backslash_escape_no_dollar
          length_backslash_escape)
  next
    case (Plain x s')
    show ?thesis
    proof (cases s')
      case Nil
      with Plain show ?thesis by simp
    next
      case (Cons d r')
      have ih_s': "escapes_intact (getSubstitution_origin m p f s')"
        using 1(1) Plain by simp
      show ?thesis
      proof (cases "fst x = CHR ''$'' \<and> fst d \<in> {CHR ''$'', CHR ''&'', CHR 0x60, CHR 0x27}")
        case False
        then have "getSubstitution_origin m p f r = x # getSubstitution_origin m p f s'"
          unfolding Plain(1) Cons by auto
        then show ?thesis using ih_s' Plain(2) by simp
      next
        case True
        then have "fst d \<noteq> backslash" by auto
        then have d: "snd d \<noteq> EscapeOf backslash"
          using Plain(3) unfolding Cons by (rule intact_not_backslash [rotated])
        then have r': "escapes_intact r'" using Plain(3) unfolding Cons by simp
        have ih: "escapes_intact (getSubstitution_origin m p f r')"
          using 1(1) r' Plain(1) Cons by simp
        from True show ?thesis
          unfolding Plain(1) Cons using ih d assms by (auto simp: intact_append)
      qed
    qed
  qed
qed

text \<open>A placeholder expression begins with \<open><\<close>: no match begins inside an escape.\<close>

lemma replace_from_origin_skip:
  "pat \<noteq> [] \<Longrightarrow> \<forall>x \<in> set a. fst x \<noteq> hd pat \<Longrightarrow>
     replace_from_origin pat r scanned (a @ s) = a @ replace_from_origin pat r (scanned @ a) s"
proof (induction a arbitrary: scanned)
  case Nil
  then show ?case by simp
next
  case (Cons x a)
  have "\<not> prefix pat (map fst (x # (a @ s)))"
    using Cons.prems by (cases pat) auto
  then have "replace_from_origin pat r scanned (x # (a @ s)) =
      x # replace_from_origin pat r (scanned @ [x]) (a @ s)"
    by (auto simp del: take_Suc_Cons drop_Suc_Cons)
  then show ?case using Cons.IH [of "scanned @ [x]"] Cons.prems by simp
qed

lemma match_take_drop:
  "escapes_intact s \<Longrightarrow> prefix pat (map fst s) \<Longrightarrow> backslash \<notin> set pat \<Longrightarrow>
     escapes_intact (take (length pat) s) \<and> escapes_intact (drop (length pat) s)"
proof (induction pat arbitrary: s)
  case Nil
  then show ?case by simp
next
  case (Cons c pat)
  from Cons.prems(2) obtain x s' where s: "s = x # s'" and x: "fst x = c"
    and p: "prefix pat (map fst s')"
    by (cases s) auto
  have "fst x \<noteq> backslash" using Cons.prems(3) x by auto
  then have plain: "snd x \<noteq> EscapeOf backslash"
    using Cons.prems(1) unfolding s by (rule intact_not_backslash [rotated])
  then have "escapes_intact s'" using Cons.prems(1) unfolding s by simp
  then have "escapes_intact (take (length pat) s') \<and> escapes_intact (drop (length pat) s')"
    using p Cons.prems(3) by (intro Cons.IH) simp_all
  then show ?case using plain by (simp add: s)
qed

lemma replace_from_origin_intact:
  assumes pat: "pat = ''<<'' @ placeholder @ ''>>''" "backslash \<notin> set placeholder"
    and r: "escapes_intact r"
  shows "escapes_intact s \<Longrightarrow> escapes_intact scanned \<Longrightarrow>
           escapes_intact (replace_from_origin pat r scanned s)"
proof (induction s arbitrary: scanned rule: length_induct)
  case (1 s)
  have ne: "pat \<noteq> []" and hd: "hd pat = CHR ''<''" and nb: "backslash \<notin> set pat"
    using pat by auto
  from 1(2) show ?case
  proof (cases rule: intact_cases)
    case Nil
    then show ?thesis by simp
  next
    case (Escape s')
    have "\<forall>x \<in> set backslash_escape. fst x \<noteq> hd pat"
      unfolding hd by (simp add: backslash_escape_def)
    then have "replace_from_origin pat r scanned s =
        backslash_escape @ replace_from_origin pat r (scanned @ backslash_escape) s'"
      unfolding Escape(1) using ne by (rule replace_from_origin_skip [rotated])
    moreover have "escapes_intact (scanned @ backslash_escape)"
      using 1(3) intact_escape [of "[]"] by (simp add: intact_append)
    ultimately show ?thesis
      using 1(1) Escape by (simp add: length_backslash_escape)
  next
    case (Plain x s')
    show ?thesis
    proof (cases "prefix pat (map fst (x # s'))")
      case False
      then have "replace_from_origin pat r scanned s =
          x # replace_from_origin pat r (scanned @ [x]) s'"
        unfolding Plain(1) by (auto simp del: take_Suc_Cons drop_Suc_Cons)
      moreover have "escapes_intact (scanned @ [x])"
        using 1(3) Plain(2) by (simp add: intact_append)
      ultimately show ?thesis using 1(1) Plain by simp
    next
      case True
      then have eq: "replace_from_origin pat r scanned s =
          getSubstitution_origin (take (length pat) s) scanned (drop (length pat) s) r
            @ replace_from_origin pat r (scanned @ take (length pat) s) (drop (length pat) s)"
        unfolding Plain(1) using ne by (simp del: take_Suc_Cons drop_Suc_Cons)
      have td: "escapes_intact (take (length pat) s) \<and> escapes_intact (drop (length pat) s)"
        using 1(2) True nb unfolding Plain(1) by (intro match_take_drop) simp_all
      have "length (drop (length pat) s) < length s"
        using ne Plain(1) by simp
      then have "escapes_intact
           (replace_from_origin pat r (scanned @ take (length pat) s) (drop (length pat) s))"
        using 1(1) td 1(3) by (simp add: intact_append)
      moreover have "escapes_intact
           (getSubstitution_origin (take (length pat) s) scanned (drop (length pat) s) r)"
        using td 1(3) r by (intro getSubstitution_origin_intact) simp_all
      ultimately show ?thesis unfolding eq by (simp add: intact_append)
    qed
  qed
qed

lemma fold_origin_intact:
  "\<forall>(placeholder, v) \<in> set reps. backslash \<notin> set placeholder \<Longrightarrow> escapes_intact t \<Longrightarrow>
   escapes_intact (fold (\<lambda>(placeholder, v).
             replace_all_origin (''<<'' @ placeholder @ ''>>'') (escapeLatex_origin (from_value v)))
       reps t)"
proof (induction reps arbitrary: t)
  case Nil
  then show ?case by simp
next
  case (Cons a reps)
  obtain p v where a: "a = (p, v)" by (cases a)
  have "backslash \<notin> set p" using Cons.prems(1) a by simp
  then have "escapes_intact
      (replace_all_origin (''<<'' @ p @ ''>>'') (escapeLatex_origin (from_value v)) t)"
    unfolding replace_all_origin_def
    using replace_from_origin_intact [where placeholder = p and scanned = "[]" and s = t
        and r = "escapeLatex_origin (from_value v)", OF refl _ escapeLatex_origin_intact Cons.prems(2)]
    by simp
  moreover have "\<forall>(placeholder, v) \<in> set reps. backslash \<notin> set placeholder"
    using Cons.prems(1) by simp
  ultimately show ?case
    unfolding a fold_Cons comp_def prod.case by (intro Cons.IH)
qed

lemma populate_origin_intact:
  "\<forall>(placeholder, v) \<in> set reps. backslash \<notin> set placeholder \<Longrightarrow>
     escapes_intact (populate_origin reps template)"
  unfolding populate_origin_def
  by (rule fold_origin_intact) (auto simp: from_template_def intro!: intact_all_plain)

lemma createReplacements_placeholders:
  "\<forall>(placeholder, v) \<in> set (createReplacements cvData options). backslash \<notin> set placeholder"
  by (simp add: createReplacements_def)

subsection \<open>Backslashes of the replacement values\<close>

text \<open>
  Claim C10. For a template that exists, \<open>populateTemplate\<close> replaces every
  placeholder by \<open>escapeLatex v\<close>, where \<open>v\<close> is the whole replacement value of
  \<open>createReplacements\<close>, the output of a section formatter included. Wherever a
  backslash stands in such a value, the escaped value has the sequence
  \<^verbatim>\<open>\textbackslash\{\}\<close> in its place, and so has the text that the substitution
  inserts at a match of the placeholder, whatever the text before and after the match:
  the backslash itself is not copied. In particular the command \<^verbatim>\<open>\cventry{\<close>
  that \<open>formatExperience\<close> writes at the start of its output arrives as
  \<^verbatim>\<open>\textbackslash\{\}cventry\{\<close>.

  For every CV, all options and every template, the populated source is what the run with
  origins gives when the origins are forgotten, and in that run no backslash of the
  populated source is a character of a replacement value: every backslash comes from the
  template or was written by \<open>escapeLatex\<close>. The characters written for a backslash
  of a value stand in the populated source only as complete sequences
  \<^verbatim>\<open>\textbackslash\{\}\<close>: no later replacement of the loop, and no pattern
  \<^verbatim>\<open>$&\<close>, \<^verbatim>\<open>$`\<close> or \<^verbatim>\<open>$'\<close> of a replacement, breaks one apart.
\<close>

theorem value_backslash_escaped:
  "escapeLatex (v1 @ backslash # v2) =
     escapeLatex v1 @ tex ''textbackslash'' @ tex ''{'' @ tex ''}'' @ escapeLatex v2 \<and>
   getSubstitution matched preceding following (escapeLatex (v1 @ backslash # v2)) =
     getSubstitution matched preceding following (escapeLatex v1)
       @ tex ''textbackslash'' @ tex ''{'' @ tex ''}''
       @ getSubstitution matched preceding following (escapeLatex v2) \<and>
   prefix (''\<newline>'' @ tex ''textbackslash'' @ tex ''{'' @ tex ''}cventry'' @ tex ''{'')
     (escapeLatex (formatExperience (ex # exs))) \<and>
   escapeLatex_origin (from_value (v1 @ backslash # v2)) =
     escapeLatex_origin (from_value v1) @ backslash_escape @ escapeLatex_origin (from_value v2) \<and>
   (fs (TemplatesDir, templateName @ ''-cv.tex'') = Some template \<longrightarrow>
    populateTemplate fs cvData templateName options =
      Inr (fold (\<lambda>(placeholder, v). replace_all (''<<'' @ placeholder @ ''>>'') (escapeLatex v))
             (createReplacements cvData options) template) \<and>
    populateTemplate fs cvData templateName options =
      Inr (map fst (populate_origin (createReplacements cvData options) template)) \<and>
    (backslash, FromValue) \<notin> set (populate_origin (createReplacements cvData options) template) \<and>
    escapes_intact (populate_origin (createReplacements cvData options) template))"
proof (intro conjI impI)
  assume "fs (TemplatesDir, templateName @ ''-cv.tex'') = Some template"
  then show pop: "populateTemplate fs cvData templateName options =
      Inr (fold (\<lambda>(placeholder, v). replace_all (''<<'' @ placeholder @ ''>>'') (escapeLatex v))
             (createReplacements cvData options) template)"
    by (simp add: populateTemplate_def)
  then show "populateTemplate fs cvData templateName options =
      Inr (map fst (populate_origin (createReplacements cvData options) template))"
    by (simp only: populate_origin_fst)
next
  show "(backslash, FromValue) \<notin> set (populate_origin (createReplacements cvData options) template)"
    by (rule populate_origin_no_backslash)
next
  show "escapes_intact (populate_origin (createReplacements cvData options) template)"
    by (rule populate_origin_intact) (rule createReplacements_placeholders)
next
  have "from_value (v1 @ backslash # v2) = from_value v1 @ [(backslash, FromValue)] @ from_value v2"
    by (simp add: from_value_def)
  then show "escapeLatex_origin (from_value (v1 @ backslash # v2)) =
     escapeLatex_origin (from_value v1) @ backslash_escape @ escapeLatex_origin (from_value v2)"
    by (simp only: escapeLatex_origin_append escapeLatex_origin_backslash)
next
  show "escapeLatex (v1 @ backslash # v2) =
     escapeLatex v1 @ tex ''textbackslash'' @ tex ''{'' @ tex ''}'' @ escapeLatex v2"
    by (rule escapeLatex_split)
next
  have "getSubstitution matched preceding following (escapeLatex (v1 @ backslash # v2)) =
        getSubstitution matched preceding following
          (escapeLatex v1 @ backslash # (''textbackslash'' @ tex ''{'' @ tex ''}'' @ escapeLatex v2))"
    by (simp add: escapeLatex_split)
  also have "\<dots> = getSubstitution matched preceding following (escapeLatex v1) @ backslash #
        getSubstitution matched preceding following (''textbackslash'' @ tex ''{'' @ tex ''}'' @ escapeLatex v2)"
    by (rule getSubstitution_append_plain) simp
  also have "getSubstitution matched preceding following (''textbackslash'' @ tex ''{'' @ tex ''}'' @ escapeLatex v2)
     = ''textbackslash'' @ tex ''{'' @ tex ''}'' @ getSubstitution matched preceding following (escapeLatex v2)"
    by (simp add: getSubstitution_plain_Cons)
  finally show "getSubstitution matched preceding following (escapeLatex (v1 @ backslash # v2)) =
     getSubstitution matched preceding following (escapeLatex v1)
       @ tex ''textbackslash'' @ tex ''{'' @ tex ''}''
       @ getSubstitution matched preceding following (escapeLatex v2)"
    by simp
next
  obtain r where "formatExperience (ex # exs) = ''\<newline>'' @ tex ''cventry{'' @ r"
    using formatExperience_starts by blast
  then have "escapeLatex (formatExperience (ex # exs)) =
      (''\<newline>'' @ tex ''textbackslash'' @ tex ''{'' @ tex ''}cventry'' @ tex ''{'') @ escapeLatex r"
    by (simp only: escapeLatex_cventry append_assoc)
  then show "prefix (''\<newline>'' @ tex ''textbackslash'' @ tex ''{'' @ tex ''}cventry'' @ tex ''{'')
     (escapeLatex (formatExperience (ex # exs)))"
    by (rule prefixI)
qed

theorem value_backslash_escaped_witness:
  "populateTemplate [(TemplatesDir, ''modern-cv.tex'') \<mapsto> ''[<<SUMMARY>>][<<EXPERIENCE>>]'']
     (example_cv\<lparr>cv_summary := ''C:'' @ tex ''dev'',
                 cv_experience := [\<lparr>exp_dates = ''2020'', exp_role = ''Dev'', exp_company = ''X'',
                                    exp_bullets = []\<rparr>]\<rparr>)
     ''modern'' example_options =
   Inr (''[C:'' @ tex ''textbackslash'' @ tex ''{'' @ tex ''}dev]['' @
        ''\<newline>'' @ tex ''textbackslash'' @ tex ''{'' @ tex ''}cventry'' @ tex ''{2020'' @ tex ''}''
        @ tex ''{Dev'' @ tex ''}'' @ tex ''{X'' @ tex ''}'' @ tex ''{'' @ tex ''}'' @ tex ''{'' @ tex ''}''
        @ tex ''{'' @ tex ''}]'') \<and>
   map fst (populate_origin
     (createReplacements
        (example_cv\<lparr>cv_summary := ''C:'' @ tex ''dev'',
                 cv_experience := [\<lparr>exp_dates = ''2020'', exp_role = ''Dev'', exp_company = ''X'',
                                    exp_bullets = []\<rparr>]\<rparr>) example_options)
     ''[<<SUMMARY>>][<<EXPERIENCE>>]'') =
   ''[C:'' @ tex ''textbackslash'' @ tex ''{'' @ tex ''}dev]['' @
        ''\<newline>'' @ tex ''textbackslash'' @ tex ''{'' @ tex ''}cventry'' @ tex ''{2020'' @ tex ''}''
        @ tex ''{Dev'' @ tex ''}'' @ tex ''{X'' @ tex ''}'' @ tex ''{'' @ tex ''}'' @ tex ''{'' @ tex ''}''
        @ tex ''{'' @ tex ''}]'' \<and>
   (backslash, FromValue) \<notin> set (populate_origin
     (createReplacements
        (example_cv\<lparr>cv_summary := ''C:'' @ tex ''dev'',
                 cv_experience := [\<lparr>exp_dates = ''2020'', exp_role = ''Dev'', exp_company = ''X'',
                                    exp_bullets = []\<rparr>]\<rparr>) example_options)
     ''[<<SUMMARY>>][<<EXPERIENCE>>]'') \<and>
   escapes_intact (populate_origin
     (createReplacements
        (example_cv\<lparr>cv_summary := ''C:'' @ tex ''dev'',
                 cv_experience := [\<lparr>exp_dates = ''2020'', exp_role = ''Dev'', exp_company = ''X'',
                                    exp_bullets = []\<rparr>]\<rparr>) example_options)
     ''[<<SUMMARY>>][<<EXPERIENCE>>]'')"
proof -
  let ?fs = "[(TemplatesDir, ''modern-cv.tex'') \<mapsto> ''[<<SUMMARY>>][<<EXPERIENCE>>]'']"
  let ?cv = "example_cv\<lparr>cv_summary := ''C:'' @ tex ''dev'',
                 cv_experience := [\<lparr>exp_dates = ''2020'', exp_role = ''Dev'', exp_company = ''X'',
                                    exp_bullets = []\<rparr>]\<rparr>"
  have exists: "?fs (TemplatesDir, ''modern'' @ ''-cv.tex'') = Some ''[<<SUMMARY>>][<<EXPERIENCE>>]''"
    by simp
  note inst = value_backslash_escaped [where fs = ?fs and templateName = "''modern''"
        and template = "''[<<SUMMARY>>][<<EXPERIENCE>>]''" and cvData = ?cv
        and options = example_options]
  have fold: "populateTemplate ?fs ?cv ''modern'' example_options =
      Inr (fold (\<lambda>(placeholder, v). replace_all (''<<'' @ placeholder @ ''>>'') (escapeLatex v))
             (createReplacements ?cv example_options) ''[<<SUMMARY>>][<<EXPERIENCE>>]'')"
    using inst exists by blast
  have orig: "populateTemplate ?fs ?cv ''modern'' example_options =
      Inr (map fst (populate_origin (createReplacements ?cv example_options)
             ''[<<SUMMARY>>][<<EXPERIENCE>>]''))"
    using inst exists by blast
  have nb: "(backslash, FromValue) \<notin> set (populate_origin (createReplacements ?cv example_options)
             ''[<<SUMMARY>>][<<EXPERIENCE>>]'')"
    using inst exists by blast
  have intact: "escapes_intact (populate_origin (createReplacements ?cv example_options)
             ''[<<SUMMARY>>][<<EXPERIENCE>>]'')"
    using inst exists by blast
  have out: "populateTemplate ?fs ?cv ''modern'' example_options =
   Inr (''[C:'' @ tex ''textbackslash'' @ tex ''{'' @ tex ''}dev]['' @
        ''\<newline>'' @ tex ''textbackslash'' @ tex ''{'' @ tex ''}cventry'' @ tex ''{2020'' @ tex ''}''
        @ tex ''{Dev'' @ tex ''}'' @ tex ''{X'' @ tex ''}'' @ tex ''{'' @ tex ''}'' @ tex ''{'' @ tex ''}''
        @ tex ''{'' @ tex ''}]'')"
    unfolding fold
    by (simp add: example_cv_def example_options_def createReplacements_def
        getNestedValue_def formatSkills_def formatExperience_def format_experience_entry_def
        formatProjects_def formatEducation_def validateFontSize_def validateColorScheme_def
        getMarginSize_def or_else_def replace_all_def
        escapeLatex_def replace_char_Cons replace_char_Nil)
  from out orig have "map fst (populate_origin (createReplacements ?cv example_options)
             ''[<<SUMMARY>>][<<EXPERIENCE>>]'') =
      ''[C:'' @ tex ''textbackslash'' @ tex ''{'' @ tex ''}dev]['' @
        ''\<newline>'' @ tex ''textbackslash'' @ tex ''{'' @ tex ''}cventry'' @ tex ''{2020'' @ tex ''}''
        @ tex ''{Dev'' @ tex ''}'' @ tex ''{X'' @ tex ''}'' @ tex ''{'' @ tex ''}'' @ tex ''{'' @ tex ''}''
        @ tex ''{'' @ tex ''}]''"
    by simp
  with out nb intact show ?thesis by blast
qed


text \<open>
  Claim C2 fails on the code. The escaped value is handed to \<open>String.prototype.replace\<close>
  as a replacement string, whose patterns are expanded: in the value \<^verbatim>\<open>$'\<close> the
  dollar sign is escaped to \<^verbatim>\<open>\$\<close>, and the \<^verbatim>\<open>$'\<close> that remains is replaced by the
  text of the template after the placeholder. With the template
  \<^verbatim>\<open>\section{Summary}<<SUMMARY>>\end{document}\<close> the text substituted for the
  placeholder is \<^verbatim>\<open>\\end{document}\<close>: the dollar sign is gone, and raw control
  characters of the template stand at the substituted position.
\<close>

theorem populateTemplate_dollar_quote:
  "populateTemplate example_templates (example_cv\<lparr>cv_summary := [CHR ''$'', CHR 0x27]\<rparr>)
     ''modern'' example_options =
   Inr (tex ''section{Summary}'' @ tex (tex ''end{document}'') @ tex ''end{document}'')"
  by (simp add: populateTemplate_def example_templates_def example_cv_def example_options_def
      createReplacements_def getNestedValue_def formatSkills_def formatExperience_def
      formatProjects_def formatEducation_def validateFontSize_def validateColorScheme_def
      getMarginSize_def or_else_def replace_all_def
      escapeLatex_def replace_char_Cons replace_char_Nil)

section \<open>Generative-text requests: retries\<close>

lemma retryable_not_client: "retryable status \<Longrightarrow> \<not> client_error status"
  by (auto simp: retryable_def client_error_def split: option.splits)

lemma makeRequest_from_retry:
  assumes "attempt_outcome (api (calls st)) = Inl status" and "retryable status"
    and "attempt < maxRetries"
  shows "makeRequest_from api attempt st =
           makeRequest_from api (attempt + 1)
             (st\<lparr>calls := calls st + 1,
                 log := log st @ [Call, Sleep (retryDelay * 2 ^ (attempt - 1))]\<rparr>)"
  using assms retryable_not_client [of status]
  by (subst makeRequest_from.simps) (simp add: Let_def)

lemma makeRequest_from_last:
  assumes "attempt_outcome (api (calls st)) = Inl status" and "attempt = maxRetries"
  shows "makeRequest_from api attempt st =
           (Inl ExternalServiceError, st\<lparr>calls := calls st + 1, log := log st @ [Call]\<rparr>)"
  using assms
  by (subst makeRequest_from.simps) (simp add: Let_def)

lemma makeRequest_from_client_error:
  assumes "api (calls st) = ApiError (Some s)" and "400 \<le> s" and "s < 500" and "s \<noteq> 429"
    and "attempt \<le> maxRetries"
  shows "makeRequest_from api attempt st =
           (Inl ExternalServiceError, st\<lparr>calls := calls st + 1, log := log st @ [Call]\<rparr>)"
  using assms
  by (subst makeRequest_from.simps) (simp add: attempt_outcome_def Let_def client_error_def)

lemma makeRequest_from_calls:
  "calls (snd (makeRequest_from api attempt st)) \<le> calls st + (Suc maxRetries - attempt)"
proof (induction api attempt st rule: makeRequest_from.induct)
  case (1 api attempt st)
  show ?case
  proof (cases "attempt \<le> maxRetries")
    case False
    then show ?thesis by (subst makeRequest_from.simps) simp
  next
    case True
    show ?thesis
    proof (cases "attempt_outcome (api (calls st))")
      case (Inr content)
      with True show ?thesis by (subst makeRequest_from.simps) (simp add: Let_def)
    next
      case (Inl status)
      show ?thesis
      proof (cases "client_error status \<or> attempt = maxRetries")
        case True
        with Inl \<open>attempt \<le> maxRetries\<close> show ?thesis
          by (subst makeRequest_from.simps) (auto simp: Let_def)
      next
        case False
        with Inl \<open>attempt \<le> maxRetries\<close> "1.IH"[OF \<open>attempt \<le> maxRetries\<close> refl Inl] show ?thesis
          by (subst makeRequest_from.simps) (auto simp: Let_def)
      qed
    qed
  qed
qed

text \<open>
  Claim C5, as the specification states it, fails: a failed call is not retried up to 3
  times. When the first three calls are rejected with status 503 and a fourth call would
  be answered, the request has made three calls (two retries, after sleeps of 1000 and
  2000 ms) and fails; the third retry is never made.
\<close>

theorem third_retry_counterexample:
  "makeRequest (\<lambda>n. if n < 3 then ApiError (Some 503) else ApiText ''ok'') initial_state =
     (Inl ExternalServiceError, \<lparr>calls = 3, log = [Call, Sleep 1000, Call, Sleep 2000, Call]\<rparr>) \<and>
   attempt_outcome ((\<lambda>n. if n < 3 then ApiError (Some 503) else ApiText ''ok'') (3::nat)) = Inr ''ok''"
  by (simp add: makeRequest_def makeRequest_from.simps attempt_outcome_def client_error_def
      maxRetries_def retryDelay_def initial_state_def Let_def)

text \<open>
  Claim C5, amended. A request makes at most 3 calls in all: the first attempt and at most
  2 retries. A first or second attempt that fails with a transport error (no status),
  a server error (5xx) or rate limiting (429) is followed by a sleep of
  \<open>1000 * 2 ^ (attempt - 1)\<close> milliseconds and by the next attempt; a third attempt that
  fails ends the request with an error. So when all three attempts fail in this way, the
  calls and sleeps are: call, 1000 ms, call, 2000 ms, call. An attempt that fails with a
  client error (4xx other than 429) ends the request at once with an error: no sleep and
  no further call follow.
\<close>

theorem makeRequest_retry_policy:
  "calls (snd (makeRequest api st)) \<le> calls st + 3 \<and>
   ((\<forall>i < 3. \<exists>status. attempt_outcome (api (calls st + i)) = Inl status \<and> retryable status) \<longrightarrow>
      makeRequest api st =
        (Inl ExternalServiceError,
         st\<lparr>calls := calls st + 3, log := log st @ [Call, Sleep 1000, Call, Sleep 2000, Call]\<rparr>)) \<and>
   (1 \<le> attempt \<and> attempt \<le> 3 \<and> api (calls st) = ApiError (Some s) \<and> 400 \<le> s \<and> s < 500 \<and> s \<noteq> 429 \<longrightarrow>
      makeRequest_from api attempt st =
        (Inl ExternalServiceError, st\<lparr>calls := calls st + 1, log := log st @ [Call]\<rparr>)) \<and>
   (1 \<le> attempt \<and> attempt < 3 \<and> attempt_outcome (api (calls st)) = Inl status \<and> retryable status \<longrightarrow>
      makeRequest_from api attempt st =
        makeRequest_from api (attempt + 1)
          (st\<lparr>calls := calls st + 1, log := log st @ [Call, Sleep (1000 * 2 ^ (attempt - 1))]\<rparr>)) \<and>
   (attempt_outcome (api (calls st)) = Inl status \<longrightarrow>
      makeRequest_from api 3 st =
        (Inl ExternalServiceError, st\<lparr>calls := calls st + 1, log := log st @ [Call]\<rparr>))"
proof (intro conjI impI)
  show "calls (snd (makeRequest api st)) \<le> calls st + 3"
    using makeRequest_from_calls [of api 1 st] by (simp add: makeRequest_def maxRetries_def)
next
  assume a: "\<forall>i < 3. \<exists>status. attempt_outcome (api (calls st + i)) = Inl status \<and> retryable status"
  have "(0::nat) < 3" by simp
  with a have "\<exists>status. attempt_outcome (api (calls st + 0)) = Inl status \<and> retryable status"
    by blast
  then obtain s0 where s0: "attempt_outcome (api (calls st)) = Inl s0" "retryable s0" by auto
  have "(1::nat) < 3" by simp
  with a obtain s1 where s1: "attempt_outcome (api (calls st + 1)) = Inl s1" "retryable s1"
    by blast
  have "(2::nat) < 3" by simp
  with a obtain s2 where s2: "attempt_outcome (api (calls st + 2)) = Inl s2" "retryable s2"
    by blast
  let ?st1 = "st\<lparr>calls := calls st + 1, log := log st @ [Call, Sleep (retryDelay * 2 ^ (1 - 1))]\<rparr>"
  let ?st2 = "?st1\<lparr>calls := calls ?st1 + 1, log := log ?st1 @ [Call, Sleep (retryDelay * 2 ^ (2 - 1))]\<rparr>"
  have "makeRequest api st = makeRequest_from api 2 ?st1"
    using makeRequest_from_retry [of api st s0 1] s0
    by (simp add: makeRequest_def maxRetries_def eval_nat_numeral)
  also have "\<dots> = makeRequest_from api 3 ?st2"
    using makeRequest_from_retry [of api ?st1 s1 2] s1 by (simp add: maxRetries_def eval_nat_numeral)
  also have "\<dots> = (Inl ExternalServiceError, ?st2\<lparr>calls := calls ?st2 + 1, log := log ?st2 @ [Call]\<rparr>)"
    using makeRequest_from_last [of api ?st2 s2 3] s2 by (simp add: maxRetries_def eval_nat_numeral)
  finally show "makeRequest api st =
        (Inl ExternalServiceError,
         st\<lparr>calls := calls st + 3, log := log st @ [Call, Sleep 1000, Call, Sleep 2000, Call]\<rparr>)"
    by (simp add: retryDelay_def)
next
  assume "1 \<le> attempt \<and> attempt \<le> 3 \<and> api (calls st) = ApiError (Some s) \<and> 400 \<le> s \<and> s < 500 \<and> s \<noteq> 429"
  then show "makeRequest_from api attempt st =
        (Inl ExternalServiceError, st\<lparr>calls := calls st + 1, log := log st @ [Call]\<rparr>)"
    using makeRequest_from_client_error [of api st s attempt] by (simp add: maxRetries_def)
next
  assume "1 \<le> attempt \<and> attempt < 3 \<and> attempt_outcome (api (calls st)) = Inl status \<and> retryable status"
  then show "makeRequest_from api attempt st =
        makeRequest_from api (attempt + 1)
          (st\<lparr>calls := calls st + 1, log := log st @ [Call, Sleep (1000 * 2 ^ (attempt - 1))]\<rparr>)"
    using makeRequest_from_retry [of api st status attempt]
    by (simp add: maxRetries_def retryDelay_def)
next
  assume "attempt_outcome (api (calls st)) = Inl status"
  then show "makeRequest_from api 3 st =
        (Inl ExternalServiceError, st\<lparr>calls := calls st + 1, log := log st @ [Call]\<rparr>)"
    using makeRequest_from_last [of api st status 3] by (simp add: maxRetries_def)
qed

theorem makeRequest_retry_policy_witness:
  "makeRequest (\<lambda>n. ApiError (Some 503)) initial_state =
     (Inl ExternalServiceError, \<lparr>calls = 3, log = [Call, Sleep 1000, Call, Sleep 2000, Call]\<rparr>) \<and>
   makeRequest unreachable initial_state =
     (Inl ExternalServiceError, \<lparr>calls = 3, log = [Call, Sleep 1000, Call, Sleep 2000, Call]\<rparr>) \<and>
   makeRequest (\<lambda>n. ApiError (Some 404)) initial_state =
     (Inl ExternalServiceError, \<lparr>calls = 1, log = [Call]\<rparr>) \<and>
   makeRequest_from (\<lambda>n. ApiError (Some 429)) 2 initial_state =
     makeRequest_from (\<lambda>n. ApiError (Some 429)) 3 \<lparr>calls = 1, log = [Call, Sleep 2000]\<rparr> \<and>
   makeRequest_from (\<lambda>n. ApiError (Some 429)) 3 \<lparr>calls = 1, log = [Call, Sleep 2000]\<rparr> =
     (Inl ExternalServiceError, \<lparr>calls = 2, log = [Call, Sleep 2000, Call]\<rparr>)"
proof -
  have a: "makeRequest (\<lambda>n. ApiError (Some 503)) initial_state =
     (Inl ExternalServiceError, \<lparr>calls = 3, log = [Call, Sleep 1000, Call, Sleep 2000, Call]\<rparr>)"
    using makeRequest_retry_policy [of "\<lambda>n. ApiError (Some 503)" initial_state 0 0 None]
    by (simp add: initial_state_def attempt_outcome_def retryable_def)
  have a': "makeRequest unreachable initial_state =
     (Inl ExternalServiceError, \<lparr>calls = 3, log = [Call, Sleep 1000, Call, Sleep 2000, Call]\<rparr>)"
    using makeRequest_retry_policy [of unreachable initial_state 0 0 None]
    by (simp add: initial_state_def attempt_outcome_def retryable_def unreachable_def)
  have b: "makeRequest (\<lambda>n. ApiError (Some 404)) initial_state =
     (Inl ExternalServiceError, \<lparr>calls = 1, log = [Call]\<rparr>)"
    using makeRequest_retry_policy [of "\<lambda>n. ApiError (Some 404)" initial_state 1 404 None]
    by (simp add: initial_state_def makeRequest_def)
  have c: "makeRequest_from (\<lambda>n. ApiError (Some 429)) 2 initial_state =
     makeRequest_from (\<lambda>n. ApiError (Some 429)) 3 \<lparr>calls = 1, log = [Call, Sleep 2000]\<rparr>"
    using makeRequest_retry_policy [of "\<lambda>n. ApiError (Some 429)" initial_state 2 0 "Some 429"]
    by (simp add: initial_state_def attempt_outcome_def retryable_def)
  have d: "makeRequest_from (\<lambda>n. ApiError (Some 429)) 3 \<lparr>calls = 1, log = [Call, Sleep 2000]\<rparr> =
     (Inl ExternalServiceError, \<lparr>calls = 2, log = [Call, Sleep 2000, Call]\<rparr>)"
    using makeRequest_retry_policy [of "\<lambda>n. ApiError (Some 429)"
        "\<lparr>calls = 1, log = [Call, Sleep 2000]\<rparr>" 0 0 "Some 429"]
    by (simp add: attempt_outcome_def)
  from a a' b c d show ?thesis by simp
qed

section \<open>Content tailoring: experience selection\<close>











section \<open>Content tailoring: selection caps\<close>

lemma rewrite_bullets_length: "length (fst (rewrite_bullets api bs kws st)) = length bs"
  by (induction api bs kws st rule: rewrite_bullets.induct) (auto simp: Let_def split: prod.splits)

lemma enhanceExperienceBullets_length:
  "length (fst (enhanceExperienceBullets api ex kws st)) \<le> 4"
  by (simp add: enhanceExperienceBullets_def rewrite_bullets_length)

lemma enhance_all_length: "length (fst (enhance_all api xs kws st)) = length xs"
  by (induction api xs kws st rule: enhance_all.induct) (auto simp: Let_def split: prod.splits)

lemma enhance_all_bullets:
  "t \<in> set (fst (enhance_all api xs kws st)) \<Longrightarrow> length (te_bullets t) \<le> 4"
proof (induction api xs kws st rule: enhance_all.induct)
  case (1 api kws st)
  then show ?case by simp
next
  case (2 api ex relevanceScore rest kws st)
  obtain bullets st1 where b: "enhanceExperienceBullets api ex kws st = (bullets, st1)"
    by (cases "enhanceExperienceBullets api ex kws st")
  obtain enhanced st2 where e: "enhance_all api rest kws st1 = (enhanced, st2)"
    by (cases "enhance_all api rest kws st1")
  from enhanceExperienceBullets_length [of api ex kws st] b have "length bullets \<le> 4" by simp
  with 2 b e show ?case by (auto simp: Let_def)
qed

lemma selectAndEnhanceExperience_length:
  "length (fst (selectAndEnhanceExperience api exps kws st)) \<le> 4"
  by (simp add: selectAndEnhanceExperience_def enhance_all_length topExperiences_def)

lemma selectAndEnhanceExperience_bullets:
  "t \<in> set (fst (selectAndEnhanceExperience api exps kws st)) \<Longrightarrow> length (te_bullets t) \<le> 4"
  by (auto simp: selectAndEnhanceExperience_def dest: enhance_all_bullets split: if_splits)

lemma generateTailoredSkills_length:
  "length (fst (generateTailoredSkills api parse skills kws st)) \<le> 15"
  by (auto simp: generateTailoredSkills_def Let_def split: prod.splits sum.splits)

lemma selectRelevantProjects_length: "length (selectRelevantProjects projects kws) \<le> 3"
  by (simp add: selectRelevantProjects_def)

text \<open>
  Claim C8. Whatever the profile, the job keywords, the replies of the generative-text
  service and the result of parsing them, the tailored sections have at most 4 experience
  entries, at most 4 bullets in each of them, at most 15 skills and at most 3 projects.
\<close>

theorem tailored_sections_caps:
  "length (ts_experience (fst (createTailoredSections api JSON_parse userProfile kws st))) \<le> 4 \<and>
   (\<forall>e \<in> set (ts_experience (fst (createTailoredSections api JSON_parse userProfile kws st))).
      length (te_bullets e) \<le> 4) \<and>
   length (ts_skills (fst (createTailoredSections api JSON_parse userProfile kws st))) \<le> 15 \<and>
   length (ts_projects (fst (createTailoredSections api JSON_parse userProfile kws st))) \<le> 3"
proof -
  obtain summary st1 where a: "generateTailoredSummary api userProfile kws st = (summary, st1)"
    by (cases "generateTailoredSummary api userProfile kws st")
  obtain experience st2 where b:
    "selectAndEnhanceExperience api (up_work_experience userProfile) kws st1 = (experience, st2)"
    by (cases "selectAndEnhanceExperience api (up_work_experience userProfile) kws st1")
  obtain skills st3 where c:
    "generateTailoredSkills api JSON_parse (up_skills userProfile) kws st2 = (skills, st3)"
    by (cases "generateTailoredSkills api JSON_parse (up_skills userProfile) kws st2")
  have e1: "length experience \<le> 4"
    using selectAndEnhanceExperience_length [of api "up_work_experience userProfile" kws st1] b by simp
  have e2: "\<forall>e \<in> set experience. length (te_bullets e) \<le> 4"
    using selectAndEnhanceExperience_bullets [of _ api "up_work_experience userProfile" kws st1] b by simp
  have e3: "length skills \<le> 15"
    using generateTailoredSkills_length [of api JSON_parse "up_skills userProfile" kws st2] c by simp
  from a b c e1 e2 e3 show ?thesis
    by (simp add: createTailoredSections_def selectRelevantProjects_length)
qed

theorem tailored_sections_caps_witness:
  "length (ts_experience (fst (createTailoredSections unreachable (\<lambda>s. SyntaxError)
      (example_profile\<lparr>up_work_experience := example_experiences\<rparr>) example_keywords initial_state))) \<le> 4 \<and>
   list_all (\<lambda>e. length (te_bullets e) \<le> 4)
     (ts_experience (fst (createTailoredSections unreachable (\<lambda>s. SyntaxError)
      (example_profile\<lparr>up_work_experience := example_experiences\<rparr>) example_keywords initial_state))) \<and>
   length (ts_skills (fst (createTailoredSections unreachable (\<lambda>s. SyntaxError)
      (example_profile\<lparr>up_work_experience := example_experiences\<rparr>) example_keywords initial_state))) \<le> 15 \<and>
   length (ts_projects (fst (createTailoredSections unreachable (\<lambda>s. SyntaxError)
      (example_profile\<lparr>up_work_experience := example_experiences\<rparr>) example_keywords initial_state))) \<le> 3"
  using tailored_sections_caps [of unreachable "\<lambda>s. SyntaxError"
      "example_profile\<lparr>up_work_experience := example_experiences\<rparr>" example_keywords initial_state]
  unfolding list_all_iff by blast

section \<open>Content tailoring: the summary when the service fails\<close>

lemma generateSummary_never_raises:
  "\<exists>summary. fst (generateSummary api keywords st) = Inr summary"
  by (cases "makeRequest api st")
     (auto simp: generateSummary_def Let_def split: sum.splits)

text \<open>
  \<open>generateTailoredSummary\<close> returns what \<open>generateSummary\<close> returns: the reply of
  the service, or the fallback text of \<open>generateSummary\<close> itself. The fallback
  \<open>generateFallbackSummary\<close> of the content service is never used.
\<close>

lemma generateTailoredSummary_eq:
  "fst (generateTailoredSummary api userProfile keywords st) =
     (case fst (makeRequest api st) of
        Inr response \<Rightarrow> strip_quotes (trim response)
      | Inl error \<Rightarrow>
          ''Experienced professional with expertise in ''
            @ join '', '' (take 3 (split '', '' (join '', '' (keyword_names (take 8 keywords)))))
            @ ''. Proven track record of delivering results in dynamic environments. Seeking to leverage skills and experience in a challenging new role.'')"
  by (cases "makeRequest api st")
     (auto simp: generateTailoredSummary_def generateSummary_def Let_def split: sum.splits)

text \<open>
  Claim C4 fails on the code. With the service unreachable, the summary for the profile
  of John Doe (one work-experience entry) and the keywords JavaScript, React, Node.js and
  agile is the fallback text of \<open>generateSummary\<close>, which names neither the first
  name nor the number of work-experience entries; the fallback of the claim,
  \<open>generateFallbackSummary\<close>, would have been the second text.
\<close>

theorem summary_fallback_when_unreachable:
  "generateTailoredSummary unreachable example_profile example_keywords initial_state =
     (''Experienced professional with expertise in JavaScript, React, Node.js. Proven track record of delivering results in dynamic environments. Seeking to leverage skills and experience in a challenging new role.'',
      \<lparr>calls = 3, log = [Call, Sleep 1000, Call, Sleep 2000, Call]\<rparr>) \<and>
   generateFallbackSummary example_profile example_keywords =
     ''Experienced John with 1+ years of professional experience. Skilled in JavaScript, React, Node.js with a proven track record of delivering results. Seeking to leverage expertise in a challenging new role.''"
  by (simp add: generateTailoredSummary_def generateSummary_def makeRequest_def
      makeRequest_from.simps attempt_outcome_def client_error_def maxRetries_def retryDelay_def
      keyword_names_def Let_def split_def unreachable_def initial_state_def
      example_keywords_def example_profile_def generateFallbackSummary_def or_else_def
      string_of_nat.simps digitChars_def)

section \<open>Keyword extraction: ranking\<close>

text \<open>
  When \<open>rankKeywords\<close> returns, it returns at most 20 keywords in descending order of
  their final score, each a merged keyword with its frequency and with the final score
  \<open>baseWeight + 0.1 * frequency + (0.2 if AI-sourced)\<close>.
\<close>

lemma score_keyword_Inr:
  assumes "score_keyword engine text k = Inr k'"
  shows "\<exists>f. calculateFrequency engine (kw_keyword k) text = Inr f \<and>
           k' = k\<lparr>kw_frequency := Some f,
                  kw_finalScore := Some ((if kw_weight k = 0 then 1 else kw_weight k)
                     + of_nat f * (1 / 10) + (if ai_sourced k then 2 / 10 else 0))\<rparr>"
  using assms
  by (auto simp: score_keyword_def calculateFinalScore_def ai_sourced_def Let_def
      split: sum.splits option.splits if_splits)

lemma map_scores_Inr:
  "map_scores engine text ks = Inr ks' \<Longrightarrow>
     list_all2 (\<lambda>k k'. score_keyword engine text k = Inr k') ks ks'"
  by (induction ks arbitrary: ks') (auto split: sum.splits)

lemma map_scores_Inl:
  "map_scores engine text ks = Inl e \<Longrightarrow> \<exists>k \<in> set ks. score_keyword engine text k = Inl e"
  by (induction ks) (auto split: sum.splits)

lemma rankKeywords_ranked:
  assumes "rankKeywords engine ks text = Inr ranked"
  shows "length ranked \<le> 20"
    and "sorted_wrt (\<lambda>a b. finalScore_of b \<le> finalScore_of a) ranked"
    and "\<forall>k' \<in> set ranked. \<exists>k \<in> set ks. \<exists>f.
           calculateFrequency engine (kw_keyword k) text = Inr f \<and>
           k' = k\<lparr>kw_frequency := Some f,
                  kw_finalScore := Some ((if kw_weight k = 0 then 1 else kw_weight k)
                     + of_nat f * (1 / 10) + (if ai_sourced k then 2 / 10 else 0))\<rparr>"
proof -
  from assms obtain scored where sc: "map_scores engine text ks = Inr scored"
    and r: "ranked = take 20 (sort_key (\<lambda>k. - finalScore_of k) scored)"
    by (auto simp: rankKeywords_def split: sum.splits)
  show "length ranked \<le> 20" by (simp add: r)
  have "sorted (map (\<lambda>k. - finalScore_of k) (sort_key (\<lambda>k. - finalScore_of k) scored))"
    by (rule sorted_sort_key)
  then have "sorted_wrt (\<lambda>a b. - finalScore_of a \<le> - finalScore_of b)
               (take 20 (sort_key (\<lambda>k. - finalScore_of k) scored))"
    by (simp add: sorted_map sorted_wrt_take)
  then show "sorted_wrt (\<lambda>a b. finalScore_of b \<le> finalScore_of a) ranked"
    by (simp add: r)
  have sub: "set ranked \<subseteq> set scored"
    unfolding r using set_take_subset [of 20 "sort_key (\<lambda>k. - finalScore_of k) scored"] by simp
  show "\<forall>k' \<in> set ranked. \<exists>k \<in> set ks. \<exists>f.
           calculateFrequency engine (kw_keyword k) text = Inr f \<and>
           k' = k\<lparr>kw_frequency := Some f,
                  kw_finalScore := Some ((if kw_weight k = 0 then 1 else kw_weight k)
                     + of_nat f * (1 / 10) + (if ai_sourced k then 2 / 10 else 0))\<rparr>"
  proof
    fix k' assume "k' \<in> set ranked"
    with sub have "k' \<in> set scored" by blast
    then obtain i where i: "i < length scored" "scored ! i = k'"
      by (auto simp: in_set_conv_nth)
    from map_scores_Inr [OF sc] have len: "length ks = length scored"
      and all: "\<forall>j < length ks. score_keyword engine text (ks ! j) = Inr (scored ! j)"
      by (simp_all add: list_all2_conv_all_nth)
    from i len all have sk: "score_keyword engine text (ks ! i) = Inr k'" by simp
    from i len have mem: "ks ! i \<in> set ks" by simp
    from score_keyword_Inr [OF sk] mem
    show "\<exists>k \<in> set ks. \<exists>f.
           calculateFrequency engine (kw_keyword k) text = Inr f \<and>
           k' = k\<lparr>kw_frequency := Some f,
                  kw_finalScore := Some ((if kw_weight k = 0 then 1 else kw_weight k)
                     + of_nat f * (1 / 10) + (if ai_sourced k then 2 / 10 else 0))\<rparr>"
      by blast
  qed
qed

lemma calculateFrequency_cpp: "calculateFrequency engine ''C++'' text = Inl RegExpSyntaxError"
  by (simp add: calculateFrequency_def literal_pattern_def nothing_to_repeat_def syntaxChars_def)

lemma basic_example: "basicKeywordExtraction example_job_text =
  [new_keyword ''python'' (8 / 10) ''technical'' (Some ''programming''),
   new_keyword ''aws'' (8 / 10) ''technical'' (Some ''cloud''),
   new_keyword ''leadership'' (6 / 10) ''soft'' None]"
  by code_simp

lemma merged_example:
  "mergeKeywords [new_keyword ''C++'' (9 / 10) ''technical'' None,
        new_keyword ''Python'' (8 / 10) ''technical'' None]
     [new_keyword ''python'' (8 / 10) ''technical'' (Some ''programming''),
      new_keyword ''aws'' (8 / 10) ''technical'' (Some ''cloud''),
      new_keyword ''leadership'' (6 / 10) ''soft'' None] =
   [(new_keyword ''C++'' (9 / 10) ''technical'' None)\<lparr>kw_sources := Some [''claude'']\<rparr>,
    (new_keyword ''Python'' (8 / 10) ''technical'' None)\<lparr>kw_sources := Some [''claude'', ''basic'']\<rparr>,
    (new_keyword ''aws'' (8 / 10) ''technical'' (Some ''cloud''))\<lparr>kw_sources := Some [''basic'']\<rparr>,
    (new_keyword ''leadership'' (6 / 10) ''soft'' None)\<lparr>kw_sources := Some [''basic'']\<rparr>]"
  by (simp add: mergeKeywords_def new_keyword_def Let_def string_simps)

text \<open>
  Claim C6 fails on the code. The keyword \<open>C++\<close> is put into a regular expression
  without escaping; \<open>new RegExp\<close> raises a syntax error, which \<open>extractJobKeywords\<close>
  catches: whatever the regular expression engine does on other keywords, the extraction
  returns the keywords of the pattern extraction as they are, without any final score,
  not ranked and not truncated.
\<close>

theorem extraction_falls_back:
  "extractJobKeywords engine
     [new_keyword ''C++'' (9 / 10) ''technical'' None,
      new_keyword ''Python'' (8 / 10) ''technical'' None]
     example_job_text =
   \<lparr>er_keywords =
      [new_keyword ''python'' (8 / 10) ''technical'' (Some ''programming''),
       new_keyword ''aws'' (8 / 10) ''technical'' (Some ''cloud''),
       new_keyword ''leadership'' (6 / 10) ''soft'' None],
    er_totalCount = 3, er_method = ''basic_fallback''\<rparr>"
proof -
  have rank: "rankKeywords engine
          [(new_keyword ''C++'' (9 / 10) ''technical'' None)\<lparr>kw_sources := Some [''claude'']\<rparr>,
           (new_keyword ''Python'' (8 / 10) ''technical'' None)\<lparr>kw_sources := Some [''claude'', ''basic'']\<rparr>,
           (new_keyword ''aws'' (8 / 10) ''technical'' (Some ''cloud''))\<lparr>kw_sources := Some [''basic'']\<rparr>,
           (new_keyword ''leadership'' (6 / 10) ''soft'' None)\<lparr>kw_sources := Some [''basic'']\<rparr>]
          example_job_text = Inl RegExpSyntaxError"
    by (simp add: rankKeywords_def score_keyword_def new_keyword_def calculateFrequency_cpp
        cong: sum.case_cong_weak)
  show ?thesis
    unfolding extractJobKeywords_def Let_def basic_example merged_example rank
    by simp
qed
end
